theory Spec2Isabelle
  imports Main
begin

section \<open>Money\<close>

text \<open>
  \<^verbatim>\<open>pb.Money{CurrencyCode, Units, Nanos}\<close> as \<^verbatim>\<open>main.go\<close> builds it in
  \<^verbatim>\<open>PlaceOrder\<close>. The generated protobuf package is not among the sources; the
  specification describes units and nanos as integers, so both fields are unbounded
  integers here and overflow of the wire types is outside the model.
\<close>

record money =
  currency_code :: string
  units :: int
  nanos :: int

text \<open>
  The Money invariant of the data model: nanos lies in
  \<^verbatim>\<open>[-999,999,999 .. 999,999,999]\<close> and does not have the sign opposite to units
  (a zero field is compatible with either sign of the other).
\<close>

definition nanosMod :: int where
  "nanosMod = 1000000000"

definition normalized :: "money \<Rightarrow> bool" where
  "normalized m \<longleftrightarrow>
     \<bar>nanos m\<bar> < nanosMod \<and>
     (0 < units m \<longrightarrow> 0 \<le> nanos m) \<and>
     (units m < 0 \<longrightarrow> nanos m \<le> 0)"

datatype money_error = CurrencyMismatch

text \<open>
  Modelled from the spec: \<^verbatim>\<open>money.Sum\<close> of package
  \<^verbatim>\<open>checkoutservice/money\<close>, which \<^verbatim>\<open>main.go\<close> imports and which is not among the
  sources. Section 4.1: it fails with CurrencyMismatch when the currency codes differ;
  otherwise it adds units and nanos independently, carries 1,000,000,000 nanos into a unit
  when the magnitude of the combined nanos exceeds 999,999,999, and then borrows one unit
  into 1,000,000,000 nanos of the matching sign when units and nanos have opposite signs.
\<close>

definition carry :: "int \<times> int \<Rightarrow> int \<times> int" where
  "carry p =
     (case p of (u, n) \<Rightarrow>
        if n > 999999999 then (u + 1, n - nanosMod)
        else if n < - 999999999 then (u - 1, n + nanosMod)
        else (u, n))"

definition borrow :: "int \<times> int \<Rightarrow> int \<times> int" where
  "borrow p =
     (case p of (u, n) \<Rightarrow>
        if u > 0 \<and> n < 0 then (u - 1, n + nanosMod)
        else if u < 0 \<and> n > 0 then (u + 1, n - nanosMod)
        else (u, n))"

definition Sum :: "money \<Rightarrow> money \<Rightarrow> money_error + money" where
  "Sum l r =
     (if currency_code l \<noteq> currency_code r then Inl CurrencyMismatch
      else
        (case borrow (carry (units l + units r, nanos l + nanos r)) of
           (u, n) \<Rightarrow> Inr \<lparr>currency_code = currency_code l, units = u, nanos = n\<rparr>))"

text \<open>The amount a Money value stands for, in nanos.\<close>

definition amount :: "money \<Rightarrow> int" where
  "amount m = units m * nanosMod + nanos m"

text \<open>Chaining a fallible Sum after a fallible operand.\<close>

definition sum_then :: "money_error + money \<Rightarrow> money \<Rightarrow> money_error + money" where
  "sum_then r m = (case r of Inl e \<Rightarrow> Inl e | Inr t \<Rightarrow> Sum t m)"

definition then_sum :: "money \<Rightarrow> money_error + money \<Rightarrow> money_error + money" where
  "then_sum m r = (case r of Inl e \<Rightarrow> Inl e | Inr t \<Rightarrow> Sum m t)"

datatype panic = NilDereference | MustPanic money_error

datatype 'a outcome = Fatal panic | Returned 'a

text \<open>
  Modelled from the spec: \<^verbatim>\<open>money.Must\<close> of the same absent package. Section 4.1:
  it turns a fallible construction into a value and is fatal on an error.
\<close>

definition Must :: "money_error + money \<Rightarrow> money outcome" where
  "Must r = (case r of Inl e \<Rightarrow> Fatal (MustPanic e) | Inr v \<Rightarrow> Returned v)"

section \<open>Messages of the checkout service\<close>

text \<open>
  The protobuf messages that \<^verbatim>\<open>main.go\<close> reads and builds, with the fields it
  touches. A pointer that the code may hold as \<^verbatim>\<open>nil\<close> is an option.
\<close>

record cart_item =
  product_id :: string
  quantity :: int

record product =
  catalog_id :: string
  price_usd :: "money option"

record address =
  street_address :: string
  city :: string
  state :: string
  country :: string
  zip_code :: int

record credit_card_info =
  credit_card_number :: string
  credit_card_cvv :: int
  credit_card_expiration_year :: int
  credit_card_expiration_month :: int

record order_item =
  item :: cart_item
  cost :: money

record order_result =
  order_id :: string
  shipping_tracking_id :: string
  shipping_cost :: "money option"
  shipping_address :: address
  items :: "order_item option list"

record place_order_request =
  user_id :: string
  user_currency :: string
  req_address :: address
  email :: string
  credit_card :: credit_card_info

record place_order_response =
  order :: order_result

section \<open>Errors and statuses\<close>

text \<open>
  An error value is either one handed over by a library or a collaborator
  (\<^verbatim>\<open>ErrorNew\<close> with its message) or one built by \<^verbatim>\<open>fmt.Errorf\<close>, kept as the
  format string with its arguments, so that no formatting has to be modelled.
\<close>

datatype 'e fmtarg = ArgS string | ArgE 'e

datatype error = ErrorNew string | Errorf string "error fmtarg list"

datatype code = Internal | Unavailable | Unimplemented

text \<open>
  \<^verbatim>\<open>status.Errorf(code, format, args...)\<close> is \<open>Status code (Errorf format args)\<close>.
  \<^verbatim>\<open>status.Errorf(codes.Internal, err.Error())\<close> is \<open>Status Internal err\<close>: the
  message is the text of \<^verbatim>\<open>err\<close> (the code passes that text as the format string;
  what \<^verbatim>\<open>Sprintf\<close> does to a percent sign inside it is not modelled).
\<close>

datatype status = Status code error

section \<open>Collaborators, connections and the trace\<close>

text \<open>
  A connection is the address it was dialled to and the number of the dial that
  made it: every successful \<^verbatim>\<open>grpc.DialContext\<close> returns a new connection object.
\<close>

type_synonym conn = "string \<times> nat"

datatype request =
    GetCartRequest string
  | EmptyCartRequest string
  | GetProductRequest string
  | CurrencyConversionRequest "money option" string
  | GetQuoteRequest address "cart_item list"
  | ShipOrderRequest address "cart_item list"
  | ChargeRequest money credit_card_info
  | SendOrderConfirmationRequest string order_result

text \<open>
  What the service does to the outside, in order: a dial that succeeded or failed, an
  RPC over a connection with whether it succeeded, and the release of a connection.
\<close>

datatype event =
    Dialed conn
  | DialFailed string
  | Rpc conn request bool
  | Closed conn

text \<open>
  The collaborators and libraries are outside the program. They are a parameter: a world
  state \<open>'w\<close> and, for every call the code makes, what the world answers and how it
  changes. An RPC is told the address its connection was dialled to.
\<close>

record 'w env =
  uuid_NewUUID :: "'w \<Rightarrow> (error + string) \<times> 'w"
  grpc_DialContext :: "string \<Rightarrow> 'w \<Rightarrow> error option \<times> 'w"
  Cart_GetCart :: "string \<Rightarrow> string \<Rightarrow> 'w \<Rightarrow> (error + cart_item list) \<times> 'w"
  Cart_EmptyCart :: "string \<Rightarrow> string \<Rightarrow> 'w \<Rightarrow> (error + unit) \<times> 'w"
  ProductCatalog_GetProduct :: "string \<Rightarrow> string \<Rightarrow> 'w \<Rightarrow> (error + product) \<times> 'w"
  Currency_Convert :: "string \<Rightarrow> money option \<Rightarrow> string \<Rightarrow> 'w \<Rightarrow> (error + money) \<times> 'w"
  Shipping_GetQuote ::
    "string \<Rightarrow> address \<Rightarrow> cart_item list \<Rightarrow> 'w \<Rightarrow> (error + money option) \<times> 'w"
  Shipping_ShipOrder ::
    "string \<Rightarrow> address \<Rightarrow> cart_item list \<Rightarrow> 'w \<Rightarrow> (error + string) \<times> 'w"
  Payment_Charge :: "string \<Rightarrow> money \<Rightarrow> credit_card_info \<Rightarrow> 'w \<Rightarrow> (error + string) \<times> 'w"
  Email_SendOrderConfirmation ::
    "string \<Rightarrow> string \<Rightarrow> order_result \<Rightarrow> 'w \<Rightarrow> (error + unit) \<times> 'w"

record 'w st =
  world :: 'w
  trace :: "event list"
  next_conn :: nat

record checkoutService =
  productCatalogSvcAddr :: string
  cartSvcAddr :: string
  currencySvcAddr :: string
  shippingSvcAddr :: string
  emailSvcAddr :: string
  paymentSvcAddr :: string

text \<open>
  The calls into the world. \<^verbatim>\<open>uuid.NewUUID\<close> leaves no event. A dial adds
  \<open>Dialed\<close> with the new connection or \<open>DialFailed\<close>; an RPC adds \<open>Rpc\<close> with its
  outcome. \<^verbatim>\<open>conn.Close()\<close> adds \<open>Closed\<close>; the code drops its result, and it is
  taken not to change the world.
\<close>

definition NewUUID :: "'w env \<Rightarrow> 'w st \<Rightarrow> (error + string) \<times> 'w st" where
  "NewUUID env s =
     (case uuid_NewUUID env (world s) of (r, w) \<Rightarrow> (r, s\<lparr>world := w\<rparr>))"

definition DialContext :: "'w env \<Rightarrow> string \<Rightarrow> 'w st \<Rightarrow> (error + conn) \<times> 'w st" where
  "DialContext env target s =
     (case grpc_DialContext env target (world s) of
        (Some err, w) \<Rightarrow>
          (Inl err, s\<lparr>world := w, trace := trace s @ [DialFailed target]\<rparr>)
      | (None, w) \<Rightarrow>
          (Inr (target, next_conn s),
           s\<lparr>world := w, trace := trace s @ [Dialed (target, next_conn s)],
             next_conn := Suc (next_conn s)\<rparr>))"

definition Close :: "conn \<Rightarrow> 'w st \<Rightarrow> 'w st" where
  "Close c s = s\<lparr>trace := trace s @ [Closed c]\<rparr>"

definition invoke ::
  "conn \<Rightarrow> request \<Rightarrow> ('w \<Rightarrow> (error + 'a) \<times> 'w) \<Rightarrow> 'w st \<Rightarrow> (error + 'a) \<times> 'w st" where
  "invoke c q f s =
     (case f (world s) of
        (r, w) \<Rightarrow> (r, s\<lparr>world := w, trace := trace s @ [Rpc c q (\<not> isl r)]\<rparr>))"

section \<open>The adapters\<close>

text \<open>
  Each adapter follows its Go text: dial, return the wrapped error if that fails,
  otherwise register the deferred \<^verbatim>\<open>conn.Close()\<close>, which the model runs on every
  return after it.
\<close>

definition quoteShipping ::
  "'w env \<Rightarrow> checkoutService \<Rightarrow> address \<Rightarrow> cart_item list \<Rightarrow> 'w st
    \<Rightarrow> (error + money option) \<times> 'w st" where
  "quoteShipping env cs addr its s =
     (case DialContext env (shippingSvcAddr cs) s of
        (Inl err, s1) \<Rightarrow>
          (Inl (Errorf ''could not connect shipping service: %+v'' [ArgE err]), s1)
      | (Inr conn, s1) \<Rightarrow>
          (case invoke conn (GetQuoteRequest addr its)
                  (Shipping_GetQuote env (fst conn) addr its) s1 of
             (Inl err, s2) \<Rightarrow>
               (Inl (Errorf ''failed to get shipping quote: %+v'' [ArgE err]), Close conn s2)
           | (Inr costUsd, s2) \<Rightarrow> (Inr costUsd, Close conn s2)))"

definition getUserCart ::
  "'w env \<Rightarrow> checkoutService \<Rightarrow> string \<Rightarrow> 'w st \<Rightarrow> (error + cart_item list) \<times> 'w st" where
  "getUserCart env cs userID s =
     (case DialContext env (cartSvcAddr cs) s of
        (Inl err, s1) \<Rightarrow>
          (Inl (Errorf ''could not connect cart service: %+v'' [ArgE err]), s1)
      | (Inr conn, s1) \<Rightarrow>
          (case invoke conn (GetCartRequest userID)
                  (Cart_GetCart env (fst conn) userID) s1 of
             (Inl err, s2) \<Rightarrow>
               (Inl (Errorf ''failed to get user cart during checkout: %+v'' [ArgE err]),
                Close conn s2)
           | (Inr cart, s2) \<Rightarrow> (Inr cart, Close conn s2)))"

definition emptyUserCart ::
  "'w env \<Rightarrow> checkoutService \<Rightarrow> string \<Rightarrow> 'w st \<Rightarrow> error option \<times> 'w st" where
  "emptyUserCart env cs userID s =
     (case DialContext env (cartSvcAddr cs) s of
        (Inl err, s1) \<Rightarrow>
          (Some (Errorf ''could not connect cart service: %+v'' [ArgE err]), s1)
      | (Inr conn, s1) \<Rightarrow>
          (case invoke conn (EmptyCartRequest userID)
                  (Cart_EmptyCart env (fst conn) userID) s1 of
             (Inl err, s2) \<Rightarrow>
               (Some (Errorf ''failed to empty user cart during checkout: %+v'' [ArgE err]),
                Close conn s2)
           | (Inr _, s2) \<Rightarrow> (None, Close conn s2)))"

definition convertCurrency ::
  "'w env \<Rightarrow> checkoutService \<Rightarrow> money option \<Rightarrow> string \<Rightarrow> 'w st
    \<Rightarrow> (error + money) \<times> 'w st" where
  "convertCurrency env cs from toCurrency s =
     (case DialContext env (currencySvcAddr cs) s of
        (Inl err, s1) \<Rightarrow>
          (Inl (Errorf ''could not connect currency service: %+v'' [ArgE err]), s1)
      | (Inr conn, s1) \<Rightarrow>
          (case invoke conn (CurrencyConversionRequest from toCurrency)
                  (Currency_Convert env (fst conn) from toCurrency) s1 of
             (Inl err, s2) \<Rightarrow>
               (Inl (Errorf ''failed to convert currency: %+v'' [ArgE err]), Close conn s2)
           | (Inr result, s2) \<Rightarrow> (Inr result, Close conn s2)))"

definition chargeCard ::
  "'w env \<Rightarrow> checkoutService \<Rightarrow> money \<Rightarrow> credit_card_info \<Rightarrow> 'w st
    \<Rightarrow> (error + string) \<times> 'w st" where
  "chargeCard env cs amt paymentInfo s =
     (case DialContext env (paymentSvcAddr cs) s of
        (Inl err, s1) \<Rightarrow>
          (Inl (Errorf ''failed to connect payment service: %+v'' [ArgE err]), s1)
      | (Inr conn, s1) \<Rightarrow>
          (case invoke conn (ChargeRequest amt paymentInfo)
                  (Payment_Charge env (fst conn) amt paymentInfo) s1 of
             (Inl err, s2) \<Rightarrow>
               (Inl (Errorf ''could not charge the card: %+v'' [ArgE err]), Close conn s2)
           | (Inr transactionId, s2) \<Rightarrow> (Inr transactionId, Close conn s2)))"

definition sendOrderConfirmation ::
  "'w env \<Rightarrow> checkoutService \<Rightarrow> string \<Rightarrow> order_result \<Rightarrow> 'w st
    \<Rightarrow> error option \<times> 'w st" where
  "sendOrderConfirmation env cs em ord s =
     (case DialContext env (emailSvcAddr cs) s of
        (Inl err, s1) \<Rightarrow>
          (Some (Errorf ''failed to connect email service: %+v'' [ArgE err]), s1)
      | (Inr conn, s1) \<Rightarrow>
          (case invoke conn (SendOrderConfirmationRequest em ord)
                  (Email_SendOrderConfirmation env (fst conn) em ord) s1 of
             (Inl err, s2) \<Rightarrow> (Some err, Close conn s2)
           | (Inr _, s2) \<Rightarrow> (None, Close conn s2)))"

definition shipOrder ::
  "'w env \<Rightarrow> checkoutService \<Rightarrow> address \<Rightarrow> cart_item list \<Rightarrow> 'w st
    \<Rightarrow> (error + string) \<times> 'w st" where
  "shipOrder env cs addr its s =
     (case DialContext env (shippingSvcAddr cs) s of
        (Inl err, s1) \<Rightarrow>
          (Inl (Errorf ''failed to connect email service: %+v'' [ArgE err]), s1)
      | (Inr conn, s1) \<Rightarrow>
          (case invoke conn (ShipOrderRequest addr its)
                  (Shipping_ShipOrder env (fst conn) addr its) s1 of
             (Inl err, s2) \<Rightarrow>
               (Inl (Errorf ''shipment failed: %+v'' [ArgE err]), Close conn s2)
           | (Inr trackingId, s2) \<Rightarrow> (Inr trackingId, Close conn s2)))"

text \<open>
  The loop of \<^verbatim>\<open>prepOrderItems\<close> over \<^verbatim>\<open>items\<close>, at index \<open>i\<close> with the items
  from \<open>i\<close> on still to do: one \<^verbatim>\<open>GetProduct\<close> over the catalog connection, one
  \<^verbatim>\<open>convertCurrency\<close>, then \<^verbatim>\<open>out[i] = &pb.OrderItem{...}\<close>. Either failure
  leaves the loop with an error that names the product and drops the cause.
\<close>

fun prepOrderItems_loop ::
  "'w env \<Rightarrow> checkoutService \<Rightarrow> conn \<Rightarrow> string \<Rightarrow> nat \<Rightarrow> cart_item list
    \<Rightarrow> order_item option list \<Rightarrow> 'w st \<Rightarrow> (error + order_item option list) \<times> 'w st" where
  "prepOrderItems_loop env cs conn userCurrency i [] out s = (Inr out, s)"
| "prepOrderItems_loop env cs conn userCurrency i (it # rest) out s =
     (case invoke conn (GetProductRequest (product_id it))
             (ProductCatalog_GetProduct env (fst conn) (product_id it)) s of
        (Inl err, s1) \<Rightarrow>
          (Inl (Errorf ''failed to get product #%q'' [ArgS (product_id it)]), s1)
      | (Inr product, s1) \<Rightarrow>
          (case convertCurrency env cs (price_usd product) userCurrency s1 of
             (Inl err, s2) \<Rightarrow>
               (Inl (Errorf ''failed to convert price of %q to %s''
                       [ArgS (product_id it), ArgS userCurrency]), s2)
           | (Inr price, s2) \<Rightarrow>
               prepOrderItems_loop env cs conn userCurrency (Suc i) rest
                 (out[i := Some \<lparr>item = it, cost = price\<rparr>]) s2))"

text \<open>
  \<^verbatim>\<open>out := make([]*pb.OrderItem, len(items))\<close> is a list of \<^verbatim>\<open>nil\<close> entries of
  that length; every index the loop writes is within it.
\<close>

definition prepOrderItems ::
  "'w env \<Rightarrow> checkoutService \<Rightarrow> cart_item list \<Rightarrow> string \<Rightarrow> 'w st
    \<Rightarrow> (error + order_item option list) \<times> 'w st" where
  "prepOrderItems env cs its userCurrency s =
     (let out = replicate (length its) None in
      case DialContext env (productCatalogSvcAddr cs) s of
        (Inl err, s1) \<Rightarrow>
          (Inl (Errorf ''could not connect product catalog service: %+v'' [ArgE err]), s1)
      | (Inr conn, s1) \<Rightarrow>
          (case prepOrderItems_loop env cs conn userCurrency 0 its out s1 of
             (r, s2) \<Rightarrow> (r, Close conn s2)))"

section \<open>Order preparation\<close>

record orderPrep =
  orderItems :: "order_item option list"
  cartItems :: "cart_item list"
  shippingCostLocalized :: "money option"

text \<open>The zero value of \<^verbatim>\<open>orderPrep\<close>: \<^verbatim>\<open>var out orderPrep\<close>.\<close>

definition zero_orderPrep :: orderPrep where
  "zero_orderPrep = \<lparr>orderItems = [], cartItems = [], shippingCostLocalized = None\<rparr>"

text \<open>
  The function returns the pair \<^verbatim>\<open>(orderPrep, error)\<close> as Go does: on every failure
  the untouched zero value together with the error.
\<close>

definition prepareOrderItemsAndShippingQuoteFromCart ::
  "'w env \<Rightarrow> checkoutService \<Rightarrow> string \<Rightarrow> string \<Rightarrow> address \<Rightarrow> 'w st
    \<Rightarrow> (orderPrep \<times> error option) \<times> 'w st" where
  "prepareOrderItemsAndShippingQuoteFromCart env cs userID userCurrency addr s =
     (let out = zero_orderPrep in
      case getUserCart env cs userID s of
        (Inl err, s1) \<Rightarrow> ((out, Some (Errorf ''cart failure: %+v'' [ArgE err])), s1)
      | (Inr cart, s1) \<Rightarrow>
      (case prepOrderItems env cs cart userCurrency s1 of
        (Inl err, s2) \<Rightarrow>
          ((out, Some (Errorf ''failed to prepare order: %+v'' [ArgE err])), s2)
      | (Inr ois, s2) \<Rightarrow>
      (case quoteShipping env cs addr cart s2 of
        (Inl err, s3) \<Rightarrow>
          ((out, Some (Errorf ''shipping quote failure: %+v'' [ArgE err])), s3)
      | (Inr shippingUSD, s3) \<Rightarrow>
      (case convertCurrency env cs shippingUSD userCurrency s3 of
        (Inl err, s4) \<Rightarrow>
          ((out, Some (Errorf ''failed to convert shipping cost to currency: %+v''
                         [ArgE err])), s4)
      | (Inr shippingPrice, s4) \<Rightarrow>
          ((out\<lparr>shippingCostLocalized := Some shippingPrice, cartItems := cart,
                 orderItems := ois\<rparr>, None), s4)))))"

section \<open>The checkout orchestrator\<close>

text \<open>
  The loop \<^verbatim>\<open>for _, it := range prep.orderItems\<close> of \<^verbatim>\<open>PlaceOrder\<close>. Reading
  \<^verbatim>\<open>it.Cost\<close> through a \<^verbatim>\<open>nil\<close> entry would be a nil dereference.
\<close>

fun total_loop :: "money \<Rightarrow> order_item option list \<Rightarrow> money outcome" where
  "total_loop tot [] = Returned tot"
| "total_loop tot (it # rest) =
     (case it of
        None \<Rightarrow> Fatal NilDereference
      | Some oi \<Rightarrow>
          (case Must (Sum tot (cost oi)) of
             Fatal p \<Rightarrow> Fatal p
           | Returned t \<Rightarrow> total_loop t rest))"

text \<open>The total of \<^verbatim>\<open>PlaceOrder\<close>: the zero Money literal, the shipping cost, the loop.\<close>

definition computeTotal :: "string \<Rightarrow> orderPrep \<Rightarrow> money outcome" where
  "computeTotal userCurrency prep =
     (let tot = \<lparr>currency_code = userCurrency, units = 0, nanos = 0\<rparr> in
      case shippingCostLocalized prep of
        None \<Rightarrow> Fatal NilDereference
      | Some ship \<Rightarrow>
          (case Must (Sum tot ship) of
             Fatal p \<Rightarrow> Fatal p
           | Returned total1 \<Rightarrow> total_loop total1 (orderItems prep)))"

text \<open>
  \<^verbatim>\<open>PlaceOrder\<close>. It returns a response or a status error, or ends in a fatal
  error. Log lines are left out: none of them stops or redirects the function.
\<close>

definition PlaceOrder ::
  "'w env \<Rightarrow> checkoutService \<Rightarrow> place_order_request \<Rightarrow> 'w st
    \<Rightarrow> (status + place_order_response) outcome \<times> 'w st" where
  "PlaceOrder env cs req s =
     (case NewUUID env s of
        (Inl err, s0) \<Rightarrow>
          (Returned (Inl (Status Internal (Errorf ''failed to generate order uuid'' []))), s0)
      | (Inr orderID, s0) \<Rightarrow>
      (case prepareOrderItemsAndShippingQuoteFromCart env cs
              (user_id req) (user_currency req) (req_address req) s0 of
        ((prep, Some err), s1) \<Rightarrow> (Returned (Inl (Status Internal err)), s1)
      | ((prep, None), s1) \<Rightarrow>
      (case computeTotal (user_currency req) prep of
        Fatal p \<Rightarrow> (Fatal p, s1)
      | Returned tot \<Rightarrow>
      (case chargeCard env cs tot (credit_card req) s1 of
        (Inl err, s2) \<Rightarrow>
          (Returned (Inl (Status Internal
             (Errorf ''failed to charge card: %+v'' [ArgE err]))), s2)
      | (Inr txID, s2) \<Rightarrow>
      (case shipOrder env cs (req_address req) (cartItems prep) s2 of
        (Inl err, s3) \<Rightarrow>
          (Returned (Inl (Status Unavailable
             (Errorf ''shipping error: %+v'' [ArgE err]))), s3)
      | (Inr shippingTrackingID, s3) \<Rightarrow>
      (case emptyUserCart env cs (user_id req) s3 of
        (_, s4) \<Rightarrow>
      (let orderResult =
             \<lparr>order_id = orderID,
              shipping_tracking_id = shippingTrackingID,
              shipping_cost = shippingCostLocalized prep,
              shipping_address = req_address req,
              items = orderItems prep\<rparr> in
       case sendOrderConfirmation env cs (email req) orderResult s4 of
        (_, s5) \<Rightarrow> (Returned (Inr \<lparr>order = orderResult\<rparr>), s5))))))))"

section \<open>Reading the trace\<close>

text \<open>The events a run added to the trace.\<close>

definition new_events :: "'w st \<Rightarrow> 'w st \<Rightarrow> event list" where
  "new_events s s' = drop (length (trace s)) (trace s')"

fun is_failure :: "event \<Rightarrow> bool" where
  "is_failure (DialFailed t) = True"
| "is_failure (Rpc c q ok) = (\<not> ok)"
| "is_failure (Dialed c) = False"
| "is_failure (Closed c) = False"

text \<open>No dial and no RPC among the events failed.\<close>

definition calm :: "event list \<Rightarrow> bool" where
  "calm evs = list_all (\<lambda>e. \<not> is_failure e) evs"

text \<open>The amounts of the \<^verbatim>\<open>Payment.Charge\<close> RPCs among the events, in order.\<close>

fun charged :: "event list \<Rightarrow> money list" where
  "charged [] = []"
| "charged (Rpc c (ChargeRequest a k) ok # es) = a # charged es"
| "charged (e # es) = charged es"

text \<open>The requests sent over one connection, in order.\<close>

fun over :: "conn \<Rightarrow> event list \<Rightarrow> request list" where
  "over c [] = []"
| "over c (Rpc c' q ok # es) = (if c' = c then q # over c es else over c es)"
| "over c (e # es) = over c es"

text \<open>
  One adapter call between the states \<open>s\<close> and \<open>s'\<close>: either the dial to \<open>target\<close>
  failed and nothing else happened, or a new connection to \<open>target\<close> was opened, carried
  the one request \<open>q\<close>, and was closed. \<open>failed\<close> is whether the adapter reported an error.
\<close>

definition single_call :: "'w st \<Rightarrow> 'w st \<Rightarrow> string \<Rightarrow> request \<Rightarrow> bool \<Rightarrow> bool" where
  "single_call s s' target q failed \<longleftrightarrow>
     (failed \<and> trace s' = trace s @ [DialFailed target] \<and> next_conn s' = next_conn s) \<or>
     (trace s' = trace s @
        [Dialed (target, next_conn s), Rpc (target, next_conn s) q (\<not> failed),
         Closed (target, next_conn s)] \<and>
      next_conn s' = Suc (next_conn s))"

text \<open>A step that added events, none of them a charge; \<open>failed\<close> iff one of them failed.\<close>

definition quiet_step :: "'w st \<Rightarrow> 'w st \<Rightarrow> bool \<Rightarrow> bool" where
  "quiet_step s s' failed \<longleftrightarrow>
     (\<exists>evs. trace s' = trace s @ evs \<and> next_conn s \<le> next_conn s' \<and>
        charged evs = [] \<and> (failed \<longleftrightarrow> \<not> calm evs))"

text \<open>The catalog lookups for a list of cart items.\<close>

definition lookups :: "cart_item list \<Rightarrow> request list" where
  "lookups its = map (\<lambda>it. GetProductRequest (product_id it)) its"

text \<open>
  Modelled from the spec: the currency service, a collaborator that is not among the
  sources. Section 4.2 gives its contract: \<^verbatim>\<open>Currency.Convert\<close> takes a Money and a
  target currency code and answers with Money in the target currency.
\<close>

definition convert_contract :: "'w env \<Rightarrow> bool" where
  "convert_contract env \<longleftrightarrow>
     (\<forall>a from to w m w'.
        Currency_Convert env a from to w = (Inr m, w') \<longrightarrow> currency_code m = to)"

text \<open>
  What a successful pricing returns for a cart: one filled entry per cart item, at the
  same index, holding that cart item and a cost; the cost is in the requested currency
  when the currency service keeps its contract.
\<close>

definition priced ::
  "'w env \<Rightarrow> string \<Rightarrow> cart_item list \<Rightarrow> order_item option list \<Rightarrow> bool" where
  "priced env cur its ois \<longleftrightarrow>
     length ois = length its \<and>
     (\<forall>j < length its. \<exists>c. ois ! j = Some \<lparr>item = its ! j, cost = c\<rparr> \<and>
          (convert_contract env \<longrightarrow> currency_code c = cur))"

text \<open>
  The total as the specification words it: start from zero Money in the user's currency,
  sum in the shipping cost, then every item cost in order, each time with Sum.
\<close>

definition spec_total :: "string \<Rightarrow> money \<Rightarrow> money list \<Rightarrow> money_error + money" where
  "spec_total cur ship costs =
     foldl sum_then (Inr \<lparr>currency_code = cur, units = 0, nanos = 0\<rparr>) (ship # costs)"

text \<open>The requests of the preparation steps.\<close>

fun prep_request :: "request \<Rightarrow> bool" where
  "prep_request (GetCartRequest u) = True"
| "prep_request (GetProductRequest p) = True"
| "prep_request (CurrencyConversionRequest m to) = True"
| "prep_request (GetQuoteRequest a its) = True"
| "prep_request q = False"

text \<open>A \<^verbatim>\<open>Payment.Charge\<close> RPC.\<close>

fun is_charge :: "event \<Rightarrow> bool" where
  "is_charge (Rpc c (ChargeRequest a k) ok) = True"
| "is_charge e = False"

text \<open>\<^verbatim>\<open>PlaceOrder\<close> returned a status with code Internal.\<close>

fun internal_error :: "(status + place_order_response) outcome \<Rightarrow> bool" where
  "internal_error (Returned (Inl (Status Internal m))) = True"
| "internal_error r = False"

section \<open>The adapter pattern of the specification\<close>

text \<open>
  The outcome of one call to a collaborator: the dial failed, the RPC failed, or the
  collaborator answered.
\<close>

datatype 'a call_outcome = DialError error | RpcError error | Answer 'a

text \<open>
  What section 4.2 asks of an adapter, written once: open a fresh connection to the
  collaborator's address for this call, issue exactly one RPC over it, and release the
  connection whether the RPC succeeded or failed. A failed dial ends the call; there is
  no connection to release then.
\<close>

definition one_call ::
  "'w env \<Rightarrow> string \<Rightarrow> request \<Rightarrow> ('w \<Rightarrow> (error + 'a) \<times> 'w) \<Rightarrow> 'w st
    \<Rightarrow> 'a call_outcome \<times> 'w st" where
  "one_call env target q answer s =
     (case grpc_DialContext env target (world s) of
        (Some err, w) \<Rightarrow>
          (DialError err, s\<lparr>world := w, trace := trace s @ [DialFailed target]\<rparr>)
      | (None, w) \<Rightarrow>
          (case answer w of
             (Inl err, w') \<Rightarrow>
               (RpcError err,
                s\<lparr>world := w',
                  trace := trace s @
                    [Dialed (target, next_conn s), Rpc (target, next_conn s) q False,
                     Closed (target, next_conn s)],
                  next_conn := Suc (next_conn s)\<rparr>)
           | (Inr v, w') \<Rightarrow>
               (Answer v,
                s\<lparr>world := w',
                  trace := trace s @
                    [Dialed (target, next_conn s), Rpc (target, next_conn s) q True,
                     Closed (target, next_conn s)],
                  next_conn := Suc (next_conn s)\<rparr>)))"

text \<open>
  How an outcome is surfaced. \<open>wrap_both\<close> wraps the cause of a failed dial in one
  message and the cause of a failed RPC in another; \<open>wrap_both_error\<close> is the same for
  an adapter that returns only an error. \<open>wrap_dial_error\<close> wraps the cause of a failed
  dial and hands a failed RPC's error on as it is.
\<close>

fun wrap_both :: "string \<Rightarrow> string \<Rightarrow> 'a call_outcome \<Rightarrow> error + 'a" where
  "wrap_both dialMsg rpcMsg (DialError err) = Inl (Errorf dialMsg [ArgE err])"
| "wrap_both dialMsg rpcMsg (RpcError err) = Inl (Errorf rpcMsg [ArgE err])"
| "wrap_both dialMsg rpcMsg (Answer v) = Inr v"

fun wrap_both_error :: "string \<Rightarrow> string \<Rightarrow> 'a call_outcome \<Rightarrow> error option" where
  "wrap_both_error dialMsg rpcMsg (DialError err) = Some (Errorf dialMsg [ArgE err])"
| "wrap_both_error dialMsg rpcMsg (RpcError err) = Some (Errorf rpcMsg [ArgE err])"
| "wrap_both_error dialMsg rpcMsg (Answer v) = None"

fun wrap_dial_error :: "string \<Rightarrow> 'a call_outcome \<Rightarrow> error option" where
  "wrap_dial_error dialMsg (DialError err) = Some (Errorf dialMsg [ArgE err])"
| "wrap_dial_error dialMsg (RpcError err) = Some err"
| "wrap_dial_error dialMsg (Answer v) = None"

text \<open>The message contains the word.\<close>

fun mentions :: "string \<Rightarrow> string \<Rightarrow> bool" where
  "mentions w [] = (w = [])"
| "mentions w (c # cs) = (take (length w) (c # cs) = w \<or> mentions w cs)"

text \<open>
  The pricing of the cart items in words of its own, without the preallocated slice: for
  each cart item in order, one \<^verbatim>\<open>GetProduct\<close> over the catalog connection \<open>c\<close>,
  then one \<^verbatim>\<open>convertCurrency\<close> call for its price; the first lookup or conversion
  that fails ends the pricing with a message that names the product and not the cause.
\<close>

fun price_items ::
  "'w env \<Rightarrow> checkoutService \<Rightarrow> conn \<Rightarrow> string \<Rightarrow> cart_item list \<Rightarrow> 'w st
    \<Rightarrow> (error + order_item list) \<times> 'w st" where
  "price_items env cs c cur [] s = (Inr [], s)"
| "price_items env cs c cur (it # rest) s =
     (case invoke c (GetProductRequest (product_id it))
             (ProductCatalog_GetProduct env (fst c) (product_id it)) s of
        (Inl err, s1) \<Rightarrow>
          (Inl (Errorf ''failed to get product #%q'' [ArgS (product_id it)]), s1)
      | (Inr product, s1) \<Rightarrow>
          (case convertCurrency env cs (price_usd product) cur s1 of
             (Inl err, s2) \<Rightarrow>
               (Inl (Errorf ''failed to convert price of %q to %s''
                       [ArgS (product_id it), ArgS cur]), s2)
           | (Inr price, s2) \<Rightarrow>
               (case price_items env cs c cur rest s2 of
                  (Inl e, s3) \<Rightarrow> (Inl e, s3)
                | (Inr ois, s3) \<Rightarrow> (Inr (\<lparr>item = it, cost = price\<rparr> # ois), s3))))"

section \<open>The pipeline for an empty cart\<close>



section \<open>A sample world\<close>

text \<open>
  A small world for concrete runs: a cart, every product at 10.00 USD, shipping at
  5.00 USD, an exchange rate of 0.9, and a list of faults. A dial fails when its address
  is a fault, a catalog lookup when the product id is one, any other call when its name
  is one. The world has no state of its own.
\<close>

definition usd :: "int \<Rightarrow> int \<Rightarrow> money" where
  "usd u n = \<lparr>currency_code = ''USD'', units = u, nanos = n\<rparr>"

definition eur :: "int \<Rightarrow> int \<Rightarrow> money" where
  "eur u n = \<lparr>currency_code = ''EUR'', units = u, nanos = n\<rparr>"

definition exchange :: "money \<Rightarrow> string \<Rightarrow> money" where
  "exchange m to =
     (let a = (units m * 1000000000 + nanos m) * 9 div 10 in
      \<lparr>currency_code = to, units = a div 1000000000, nanos = a mod 1000000000\<rparr>)"

definition shop :: "cart_item list \<Rightarrow> string list \<Rightarrow> unit env" where
  "shop cart faults =
     \<lparr>uuid_NewUUID = (\<lambda>w.
        (if ''NewUUID'' \<in> set faults then Inl (ErrorNew ''no uuid'') else Inr ''order-1'', w)),
      grpc_DialContext = (\<lambda>target w.
        (if target \<in> set faults then Some (ErrorNew ''unreachable'') else None, w)),
      Cart_GetCart = (\<lambda>a u w.
        (if ''GetCart'' \<in> set faults then Inl (ErrorNew ''cart down'') else Inr cart, w)),
      Cart_EmptyCart = (\<lambda>a u w.
        (if ''EmptyCart'' \<in> set faults then Inl (ErrorNew ''cart down'') else Inr (), w)),
      ProductCatalog_GetProduct = (\<lambda>a p w.
        (if p \<in> set faults then Inl (ErrorNew ''no such product'')
         else Inr \<lparr>catalog_id = p, price_usd = Some (usd 10 0)\<rparr>, w)),
      Currency_Convert = (\<lambda>a from to w.
        (if ''Convert'' \<in> set faults then Inl (ErrorNew ''no rate'')
         else Inr (case from of
                     None \<Rightarrow> \<lparr>currency_code = to, units = 0, nanos = 0\<rparr>
                   | Some m \<Rightarrow> exchange m to), w)),
      Shipping_GetQuote = (\<lambda>a ad its w.
        (if ''GetQuote'' \<in> set faults then Inl (ErrorNew ''no quote'')
         else Inr (Some (usd 5 0)), w)),
      Shipping_ShipOrder = (\<lambda>a ad its w.
        (if ''ShipOrder'' \<in> set faults then Inl (ErrorNew ''no carrier'')
         else Inr ''track-1'', w)),
      Payment_Charge = (\<lambda>a m k w.
        (if ''Charge'' \<in> set faults then Inl (ErrorNew ''declined'') else Inr ''tx-1'', w)),
      Email_SendOrderConfirmation = (\<lambda>a e ord w.
        (if ''SendOrderConfirmation'' \<in> set faults then Inl (ErrorNew ''bounced'')
         else Inr (), w))\<rparr>"

definition svc :: checkoutService where
  "svc = \<lparr>productCatalogSvcAddr = ''catalog:3550'', cartSvcAddr = ''cart:7070'',
          currencySvcAddr = ''currency:7000'', shippingSvcAddr = ''shipping:50051'',
          emailSvcAddr = ''email:8080'', paymentSvcAddr = ''payment:50051''\<rparr>"

definition home :: address where
  "home = \<lparr>street_address = ''1 Main St'', city = ''Paris'', state = ''IDF'',
           country = ''FR'', zip_code = 75001\<rparr>"

definition card :: credit_card_info where
  "card = \<lparr>credit_card_number = ''4111'', credit_card_cvv = 123,
           credit_card_expiration_year = 2030, credit_card_expiration_month = 1\<rparr>"

definition request1 :: place_order_request where
  "request1 = \<lparr>user_id = ''u1'', user_currency = ''EUR'', req_address = home,
               email = ''u1@example.com'', credit_card = card\<rparr>"

definition start :: "unit st" where
  "start = \<lparr>world = (), trace = [], next_conn = 0\<rparr>"

definition cart1 :: "cart_item list" where
  "cart1 = [\<lparr>product_id = ''P1'', quantity = 2\<rparr>, \<lparr>product_id = ''P2'', quantity = 1\<rparr>]"

text \<open>
  The order and the preparation that the sample world yields for \<open>cart1\<close>, and the
  run of \<^verbatim>\<open>PlaceOrder\<close> on \<open>request1\<close> from the empty trace with its events.
\<close>

definition order1 :: order_result where
  "order1 = \<lparr>order_id = ''order-1'', shipping_tracking_id = ''track-1'',
     shipping_cost = Some (eur 4 500000000), shipping_address = home,
     items = [Some \<lparr>item = \<lparr>product_id = ''P1'', quantity = 2\<rparr>, cost = eur 9 0\<rparr>,
              Some \<lparr>item = \<lparr>product_id = ''P2'', quantity = 1\<rparr>, cost = eur 9 0\<rparr>]\<rparr>"

definition prep1 :: orderPrep where
  "prep1 = \<lparr>orderItems = items order1, cartItems = cart1,
            shippingCostLocalized = Some (eur 4 500000000)\<rparr>"

definition sample_run ::
  "cart_item list \<Rightarrow> string list \<Rightarrow> (status + place_order_response) outcome \<times> unit st" where
  "sample_run cart faults = PlaceOrder (shop cart faults) svc request1 start"

definition sample_events :: "cart_item list \<Rightarrow> string list \<Rightarrow> event list" where
  "sample_events cart faults = new_events start (snd (sample_run cart faults))"

section \<open>Properties of Sum\<close>

lemma Sum_mismatch:
  "currency_code a \<noteq> currency_code b \<Longrightarrow> Sum a b = Inl CurrencyMismatch"
  by (simp add: Sum_def)

lemma Sum_commute: "Sum a b = Sum b a"
  by (simp add: Sum_def add.commute)

lemma Sum_currency:
  "Sum a b = Inr m \<Longrightarrow> currency_code m = currency_code a"
  by (auto simp: Sum_def split: if_splits prod.splits)

lemma Sum_total:
  "currency_code a = currency_code b \<Longrightarrow> \<exists>m. Sum a b = Inr m"
  by (simp add: Sum_def split: prod.splits)

lemma Sum_amount:
  "Sum a b = Inr m \<Longrightarrow> amount m = amount a + amount b"
  by (auto simp: Sum_def amount_def carry_def borrow_def nanosMod_def
      split: if_splits prod.splits)

lemma Sum_normalized:
  assumes "normalized a" "normalized b" "Sum a b = Inr m"
  shows "normalized m"
  using assms
  by (auto simp: Sum_def normalized_def carry_def borrow_def nanosMod_def
      split: if_splits prod.splits)

lemma unit_gap:
  "(d::int) * 1000000000 = n \<Longrightarrow> \<bar>n\<bar> < 2000000000 \<Longrightarrow> d = -1 \<or> d = 0 \<or> d = 1"
  by linarith

lemma normalized_unique:
  assumes "normalized a" "normalized b"
    and "amount a = amount b"
    and "currency_code a = currency_code b"
  shows "a = b"
proof -
  let ?d = "units a - units b"
  have eq: "?d * 1000000000 = nanos b - nanos a"
    using assms(3) by (simp add: amount_def nanosMod_def algebra_simps)
  have bnd: "\<bar>nanos b - nanos a\<bar> < 2000000000"
    using assms(1,2) unfolding normalized_def nanosMod_def by linarith
  have d: "?d = -1 \<or> ?d = 0 \<or> ?d = 1"
    using unit_gap [OF eq bnd] .
  have "?d = 0"
  proof (rule ccontr)
    assume "?d \<noteq> 0"
    with d have "?d = -1 \<or> ?d = 1" by simp
    then show False
      using eq assms(1,2) by (auto simp: normalized_def nanosMod_def)
  qed
  then have "units a = units b" and "nanos a = nanos b"
    using eq by simp_all
  with assms(4) show ?thesis by simp
qed

lemma Sum_assoc:
  assumes "normalized a" "normalized b" "normalized c"
    and "currency_code a = currency_code b" "currency_code b = currency_code c"
  shows "sum_then (Sum a b) c = then_sum a (Sum b c)"
proof -
  obtain ab where ab: "Sum a b = Inr ab"
    using Sum_total [OF assms(4)] by blast
  obtain bc where bc: "Sum b c = Inr bc"
    using Sum_total [OF assms(5)] by blast
  have cab: "currency_code ab = currency_code c"
    using Sum_currency [OF ab] assms(4,5) by simp
  have cbc: "currency_code a = currency_code bc"
    using Sum_currency [OF bc] assms(4) by simp
  obtain x where x: "Sum ab c = Inr x"
    using Sum_total [OF cab] by blast
  obtain y where y: "Sum a bc = Inr y"
    using Sum_total [OF cbc] by blast
  have nx: "normalized x"
    using Sum_normalized [OF Sum_normalized [OF assms(1,2) ab] assms(3) x] .
  have ny: "normalized y"
    using Sum_normalized [OF assms(1) Sum_normalized [OF assms(2,3) bc] y] .
  have "amount x = amount y"
    using Sum_amount [OF ab] Sum_amount [OF bc] Sum_amount [OF x] Sum_amount [OF y]
    by simp
  moreover have "currency_code x = currency_code y"
    using Sum_currency [OF x] Sum_currency [OF y] Sum_currency [OF ab] by simp
  ultimately have "x = y"
    using normalized_unique [OF nx ny] by simp
  then show ?thesis
    by (simp add: sum_then_def then_sum_def ab bc x y)
qed

text \<open>
  Claim C9. For Money values \<open>a\<close>, \<open>b\<close>, \<open>c\<close> (values that satisfy the Money
  invariant) of one currency, Sum is commutative and associative and its result is
  normalized: the magnitude of nanos is below 1,000,000,000 and nanos does not have the
  sign opposite to units. For operands of different currencies Sum fails with
  CurrencyMismatch.
\<close>

theorem Sum_laws:
  "Sum a b = Sum b a \<and>
   (currency_code a \<noteq> currency_code b \<longrightarrow> Sum a b = Inl CurrencyMismatch) \<and>
   (normalized a \<and> normalized b \<and> currency_code a = currency_code b \<longrightarrow>
      (\<exists>m. Sum a b = Inr m \<and> \<bar>nanos m\<bar> < 1000000000 \<and>
            (0 < units m \<longrightarrow> 0 \<le> nanos m) \<and> (units m < 0 \<longrightarrow> nanos m \<le> 0))) \<and>
   (normalized a \<and> normalized b \<and> normalized c \<and>
    currency_code a = currency_code b \<and> currency_code b = currency_code c \<longrightarrow>
      sum_then (Sum a b) c = then_sum a (Sum b c))"
proof (intro conjI impI)
  show "Sum a b = Sum b a" by (rule Sum_commute)
next
  assume "currency_code a \<noteq> currency_code b"
  then show "Sum a b = Inl CurrencyMismatch" by (rule Sum_mismatch)
next
  assume h: "normalized a \<and> normalized b \<and> currency_code a = currency_code b"
  then obtain m where m: "Sum a b = Inr m" using Sum_total by blast
  with h have "normalized m" using Sum_normalized by blast
  with m show "\<exists>m. Sum a b = Inr m \<and> \<bar>nanos m\<bar> < 1000000000 \<and>
            (0 < units m \<longrightarrow> 0 \<le> nanos m) \<and> (units m < 0 \<longrightarrow> nanos m \<le> 0)"
    by (auto simp: normalized_def nanosMod_def)
next
  assume "normalized a \<and> normalized b \<and> normalized c \<and>
    currency_code a = currency_code b \<and> currency_code b = currency_code c"
  then show "sum_then (Sum a b) c = then_sum a (Sum b c)"
    using Sum_assoc by blast
qed

theorem Sum_laws_witness:
  "normalized (usd 1 600000000) \<and> normalized (usd 2 700000000) \<and>
   normalized (usd (- 4) (- 500000000)) \<and>
   Sum (usd 1 600000000) (usd 2 700000000) = Inr (usd 4 300000000) \<and>
   Sum (usd 2 700000000) (usd 1 600000000) = Inr (usd 4 300000000) \<and>
   sum_then (Sum (usd 1 600000000) (usd 2 700000000)) (usd (- 4) (- 500000000))
     = Inr (usd 0 (- 200000000)) \<and>
   then_sum (usd 1 600000000) (Sum (usd 2 700000000) (usd (- 4) (- 500000000)))
     = Inr (usd 0 (- 200000000)) \<and>
   Sum (usd 1 600000000) (eur 1 0) = Inl CurrencyMismatch"
  using Sum_laws [of "usd 1 600000000" "usd 2 700000000" "usd (- 4) (- 500000000)"]
    Sum_laws [of "usd 1 600000000" "eur 1 0"]
  by (simp add: usd_def eur_def normalized_def nanosMod_def Sum_def carry_def borrow_def
      sum_then_def then_sum_def)

section \<open>Evaluating the sample world\<close>

lemmas run_defs = PlaceOrder_def NewUUID_def prepareOrderItemsAndShippingQuoteFromCart_def
  getUserCart_def prepOrderItems_def quoteShipping_def convertCurrency_def chargeCard_def
  shipOrder_def emptyUserCart_def sendOrderConfirmation_def DialContext_def invoke_def Close_def
  zero_orderPrep_def computeTotal_def Must_def Sum_def carry_def borrow_def nanosMod_def
  shop_def svc_def request1_def start_def cart1_def home_def card_def exchange_def usd_def eur_def
  new_events_def Let_def sample_run_def sample_events_def order1_def prep1_def

lemma shop_contract: "convert_contract (shop cart faults)"
  by (auto simp: convert_contract_def shop_def exchange_def Let_def split: if_splits option.splits)

section \<open>Events of the adapters and of the run\<close>

lemma charged_append [simp]: "charged (a @ b) = charged a @ charged b"
  by (induction a rule: charged.induct) simp_all

lemma calm_append [simp]: "calm (a @ b) \<longleftrightarrow> calm a \<and> calm b"
  by (simp add: calm_def)

lemma calm_Nil [simp]: "calm []"
  by (simp add: calm_def)

lemma calm_Cons [simp]: "calm (e # es) \<longleftrightarrow> \<not> is_failure e \<and> calm es"
  by (simp add: calm_def)

lemma over_append [simp]: "over c (a @ b) = over c a @ over c b"
  by (induction c a rule: over.induct) simp_all

lemmas adapter_defs = DialContext_def invoke_def Close_def single_call_def

lemma quoteShipping_call:
  "quoteShipping env cs a its s = (r, s') \<Longrightarrow>
   single_call s s' (shippingSvcAddr cs) (GetQuoteRequest a its) (isl r)"
  by (auto simp: quoteShipping_def adapter_defs split: prod.splits option.splits sum.splits)

lemma getUserCart_call:
  "getUserCart env cs u s = (r, s') \<Longrightarrow>
   single_call s s' (cartSvcAddr cs) (GetCartRequest u) (isl r)"
  by (auto simp: getUserCart_def adapter_defs split: prod.splits option.splits sum.splits)

lemma emptyUserCart_call:
  "emptyUserCart env cs u s = (r, s') \<Longrightarrow>
   single_call s s' (cartSvcAddr cs) (EmptyCartRequest u) (r \<noteq> None)"
  by (auto simp: emptyUserCart_def adapter_defs split: prod.splits option.splits sum.splits)

lemma convertCurrency_call:
  "convertCurrency env cs from to s = (r, s') \<Longrightarrow>
   single_call s s' (currencySvcAddr cs) (CurrencyConversionRequest from to) (isl r)"
  by (auto simp: convertCurrency_def adapter_defs split: prod.splits option.splits sum.splits)

lemma chargeCard_call:
  "chargeCard env cs amt k s = (r, s') \<Longrightarrow>
   single_call s s' (paymentSvcAddr cs) (ChargeRequest amt k) (isl r)"
  by (auto simp: chargeCard_def adapter_defs split: prod.splits option.splits sum.splits)

lemma sendOrderConfirmation_call:
  "sendOrderConfirmation env cs em ord s = (r, s') \<Longrightarrow>
   single_call s s' (emailSvcAddr cs) (SendOrderConfirmationRequest em ord) (r \<noteq> None)"
  by (auto simp: sendOrderConfirmation_def adapter_defs
      split: prod.splits option.splits sum.splits)

lemma shipOrder_call:
  "shipOrder env cs a its s = (r, s') \<Longrightarrow>
   single_call s s' (shippingSvcAddr cs) (ShipOrderRequest a its) (isl r)"
  by (auto simp: shipOrder_def adapter_defs split: prod.splits option.splits sum.splits)

lemma invoke_events:
  "invoke c q f s = (r, s') \<Longrightarrow>
   trace s' = trace s @ [Rpc c q (\<not> isl r)] \<and> next_conn s' = next_conn s"
  by (auto simp: invoke_def split: prod.splits)

lemma single_call_events:
  assumes "single_call s s' t q failed"
  shows "\<exists>evs. trace s' = trace s @ evs \<and> next_conn s \<le> next_conn s' \<and>
           (failed \<longleftrightarrow> \<not> calm evs) \<and>
           ((\<forall>m k. q \<noteq> ChargeRequest m k) \<longrightarrow> charged evs = []) \<and>
           (\<forall>a n. n < next_conn s \<longrightarrow>
              over (a, n) evs = [] \<and> Closed (a, n) \<notin> set evs \<and> Dialed (a, n) \<notin> set evs)"
  using assms unfolding single_call_def
  by (cases q) auto

lemma prepOrderItems_loop_events:
  assumes "prepOrderItems_loop env cs conn cur i its out s = (r, s')"
    and "snd conn < next_conn s"
  shows "\<exists>body. trace s' = trace s @ body \<and> next_conn s \<le> next_conn s' \<and>
           charged body = [] \<and> (isl r \<longleftrightarrow> \<not> calm body) \<and>
           Closed conn \<notin> set body \<and> Dialed conn \<notin> set body \<and>
           (\<exists>k \<le> length its. (\<not> isl r \<longrightarrow> k = length its) \<and>
                over conn body = lookups (take k its))"
  using assms
proof (induction its arbitrary: i out s)
  case Nil
  then show ?case by (auto simp: lookups_def)
next
  case (Cons it rest)
  obtain r1 s1 where inv: "invoke conn (GetProductRequest (product_id it))
             (ProductCatalog_GetProduct env (fst conn) (product_id it)) s = (r1, s1)"
    by (cases "invoke conn (GetProductRequest (product_id it))
             (ProductCatalog_GetProduct env (fst conn) (product_id it)) s") auto
  note e1 = invoke_events [OF inv]
  show ?case
  proof (cases r1)
    case (Inl err)
    with Cons.prems inv have "r = Inl (Errorf ''failed to get product #%q'' [ArgS (product_id it)])"
      and "s' = s1" by auto
    with e1 Inl show ?thesis
      by (auto simp: lookups_def intro!: exI [of _ "Suc 0"])
  next
    case (Inr product)
    obtain r2 s2 where cv: "convertCurrency env cs (price_usd product) cur s1 = (r2, s2)"
      by (cases "convertCurrency env cs (price_usd product) cur s1") auto
    from single_call_events [OF convertCurrency_call [OF cv]] e1 Cons.prems(2)
    obtain evs where evs: "trace s2 = trace s1 @ evs" "next_conn s1 \<le> next_conn s2"
      "isl r2 \<longleftrightarrow> \<not> calm evs" "charged evs = []"
      "over conn evs = []" "Closed conn \<notin> set evs" "Dialed conn \<notin> set evs"
      by (cases conn) auto
    show ?thesis
    proof (cases r2)
      case (Inl err)
      with Cons.prems inv Inr cv have "isl r" and "s' = s2" by auto
      with e1 evs Inl Inr show ?thesis
        by (auto simp: lookups_def intro!: exI [of _ "Suc 0"])
    next
      case (Inr price)
      with Cons.prems inv \<open>r1 = Inr product\<close> cv
      have rec: "prepOrderItems_loop env cs conn cur (Suc i) rest
                   (out[i := Some \<lparr>item = it, cost = price\<rparr>]) s2 = (r, s')"
        by auto
      have "snd conn < next_conn s2"
        using Cons.prems(2) e1 evs(2) by simp
      from Cons.IH [OF rec this]
      obtain body k where body: "trace s' = trace s2 @ body" "next_conn s2 \<le> next_conn s'"
        "charged body = []" "isl r \<longleftrightarrow> \<not> calm body"
        "Closed conn \<notin> set body" "Dialed conn \<notin> set body"
        "k \<le> length rest" "\<not> isl r \<longrightarrow> k = length rest"
        "over conn body = lookups (take k rest)"
        by blast
      have "trace s' = trace s @ (Rpc conn (GetProductRequest (product_id it)) True # evs @ body)"
        using body(1) evs(1) e1 \<open>r1 = Inr product\<close> by simp
      moreover have "over conn (Rpc conn (GetProductRequest (product_id it)) True # evs @ body)
                     = lookups (take (Suc k) (it # rest))"
        using evs(5) body(9) by (simp add: lookups_def)
      ultimately show ?thesis
        using body evs e1 Inr
        by (intro exI [of _ "Rpc conn (GetProductRequest (product_id it)) True # evs @ body"])
           (auto intro!: exI [of _ "Suc k"])
    qed
  qed
qed

lemma convertCurrency_currency:
  "convert_contract env \<Longrightarrow> convertCurrency env cs from to s = (Inr m, s') \<Longrightarrow>
   currency_code m = to"
  unfolding convert_contract_def
  by (fastforce simp: convertCurrency_def DialContext_def invoke_def
      split: prod.splits option.splits sum.splits)

lemma prepOrderItems_loop_out:
  assumes "prepOrderItems_loop env cs conn cur i its out s = (Inr out', s')"
    and "i + length its \<le> length out"
  shows "length out' = length out \<and>
         (\<forall>j < i. out' ! j = out ! j) \<and>
         (\<forall>j < length its. \<exists>c. out' ! (i + j) = Some \<lparr>item = its ! j, cost = c\<rparr> \<and>
              (convert_contract env \<longrightarrow> currency_code c = cur))"
  using assms
proof (induction its arbitrary: i out s)
  case Nil
  then show ?case by simp
next
  case (Cons it rest)
  from Cons.prems(1) obtain product s1 price s2 where
    inv: "invoke conn (GetProductRequest (product_id it))
             (ProductCatalog_GetProduct env (fst conn) (product_id it)) s = (Inr product, s1)"
    and cv: "convertCurrency env cs (price_usd product) cur s1 = (Inr price, s2)"
    and rec: "prepOrderItems_loop env cs conn cur (Suc i) rest
                (out[i := Some \<lparr>item = it, cost = price\<rparr>]) s2 = (Inr out', s')"
    by (auto split: prod.splits sum.splits)
  have len: "Suc i + length rest \<le> length (out[i := Some \<lparr>item = it, cost = price\<rparr>])"
    using Cons.prems(2) by simp
  note ih = Cons.IH [OF rec len]
  have i: "out' ! i = Some \<lparr>item = it, cost = price\<rparr>"
    using ih Cons.prems(2) by simp
  have cur: "convert_contract env \<longrightarrow> currency_code price = cur"
    using convertCurrency_currency [OF _ cv] by blast
  show ?case
  proof (intro conjI allI impI)
    show "length out' = length out" using ih by simp
  next
    fix j assume "j < i"
    then show "out' ! j = out ! j" using ih by simp
  next
    fix j assume j: "j < length (it # rest)"
    show "\<exists>c. out' ! (i + j) = Some \<lparr>item = (it # rest) ! j, cost = c\<rparr> \<and>
              (convert_contract env \<longrightarrow> currency_code c = cur)"
    proof (cases j)
      case 0
      then show ?thesis using i cur by simp
    next
      case (Suc j')
      with j have "j' < length rest" by simp
      with ih obtain c where "out' ! (Suc i + j') = Some \<lparr>item = rest ! j', cost = c\<rparr>"
        "convert_contract env \<longrightarrow> currency_code c = cur" by blast
      then show ?thesis using Suc by simp
    qed
  qed
qed

lemma prepOrderItems_out:
  assumes "prepOrderItems env cs its cur s = (Inr ois, s')"
  shows "priced env cur its ois"
proof -
  from assms obtain conn s1 s2 where
    "prepOrderItems_loop env cs conn cur 0 its (replicate (length its) None) s1 = (Inr ois, s2)"
    by (auto simp: prepOrderItems_def split: prod.splits sum.splits)
  from prepOrderItems_loop_out [OF this] show ?thesis
    by (simp add: priced_def)
qed

lemma prepOrderItems_events:
  assumes "prepOrderItems env cs its cur s = (r, s')"
  shows "(isl r \<and> trace s' = trace s @ [DialFailed (productCatalogSvcAddr cs)] \<and>
          next_conn s' = next_conn s) \<or>
         (\<exists>body k. trace s' = trace s @ Dialed (productCatalogSvcAddr cs, next_conn s) # body
                       @ [Closed (productCatalogSvcAddr cs, next_conn s)] \<and>
            next_conn s < next_conn s' \<and> charged body = [] \<and> (isl r \<longleftrightarrow> \<not> calm body) \<and>
            Closed (productCatalogSvcAddr cs, next_conn s) \<notin> set body \<and>
            Dialed (productCatalogSvcAddr cs, next_conn s) \<notin> set body \<and>
            k \<le> length its \<and> (\<not> isl r \<longrightarrow> k = length its) \<and>
            over (productCatalogSvcAddr cs, next_conn s) body = lookups (take k its))"
proof (cases "grpc_DialContext env (productCatalogSvcAddr cs) (world s)")
  case (Pair d w)
  show ?thesis
  proof (cases d)
    case (Some err)
    with Pair assms show ?thesis
      by (auto simp: prepOrderItems_def DialContext_def)
  next
    case None
    let ?c = "(productCatalogSvcAddr cs, next_conn s)"
    let ?s1 = "s\<lparr>world := w, trace := trace s @ [Dialed ?c], next_conn := Suc (next_conn s)\<rparr>"
    obtain s2 where loop:
      "prepOrderItems_loop env cs ?c cur 0 its (replicate (length its) None) ?s1 = (r, s2)"
      and s': "s' = Close ?c s2"
      using Pair None assms
      by (auto simp: prepOrderItems_def DialContext_def split: prod.splits)
    have "snd ?c < next_conn ?s1" by simp
    from prepOrderItems_loop_events [OF loop this]
    obtain body k where "trace s2 = trace ?s1 @ body" "next_conn ?s1 \<le> next_conn s2"
      "charged body = []" "isl r \<longleftrightarrow> \<not> calm body"
      "Closed ?c \<notin> set body" "Dialed ?c \<notin> set body"
      "k \<le> length its" "\<not> isl r \<longrightarrow> k = length its"
      "over ?c body = lookups (take k its)"
      by blast
    then show ?thesis
      using s' by (intro disjI2 exI [of _ body] exI [of _ k]) (simp add: Close_def)
  qed
qed

lemma prepOrderItems_summary:
  assumes "prepOrderItems env cs its cur s = (r, s')"
  shows "\<exists>evs. trace s' = trace s @ evs \<and> next_conn s \<le> next_conn s' \<and>
           charged evs = [] \<and> (isl r \<longleftrightarrow> \<not> calm evs)"
  using prepOrderItems_events [OF assms] by auto

lemma quiet_step_trans:
  "quiet_step s s1 False \<Longrightarrow> quiet_step s1 s2 failed \<Longrightarrow> quiet_step s s2 failed"
  unfolding quiet_step_def
  by (elim exE conjE, rule_tac x = "evs @ evsa" in exI) simp

lemma single_call_quiet:
  "single_call s s' t q failed \<Longrightarrow> (\<And>m k. q \<noteq> ChargeRequest m k) \<Longrightarrow> quiet_step s s' failed"
  using single_call_events [of s s' t q failed] unfolding quiet_step_def by blast

lemma getUserCart_quiet:
  "getUserCart env cs u s = (r, s') \<Longrightarrow> quiet_step s s' (isl r)"
  by (rule single_call_quiet [OF getUserCart_call]) simp_all

lemma quoteShipping_quiet:
  "quoteShipping env cs a its s = (r, s') \<Longrightarrow> quiet_step s s' (isl r)"
  by (rule single_call_quiet [OF quoteShipping_call]) simp_all

lemma convertCurrency_quiet:
  "convertCurrency env cs from to s = (r, s') \<Longrightarrow> quiet_step s s' (isl r)"
  by (rule single_call_quiet [OF convertCurrency_call]) simp_all

lemma prepOrderItems_quiet:
  "prepOrderItems env cs its cur s = (r, s') \<Longrightarrow> quiet_step s s' (isl r)"
  using prepOrderItems_summary unfolding quiet_step_def by blast

lemma prepare_cases:
  assumes "prepareOrderItemsAndShippingQuoteFromCart env cs u cur a s = ((prep, e), s')"
  obtains
    (cart) err where "getUserCart env cs u s = (Inl err, s')"
      "prep = zero_orderPrep" "e = Some (Errorf ''cart failure: %+v'' [ArgE err])"
  | (pricing) cart s1 err where "getUserCart env cs u s = (Inr cart, s1)"
      "prepOrderItems env cs cart cur s1 = (Inl err, s')"
      "prep = zero_orderPrep" "e = Some (Errorf ''failed to prepare order: %+v'' [ArgE err])"
  | (quote) cart s1 ois s2 err where "getUserCart env cs u s = (Inr cart, s1)"
      "prepOrderItems env cs cart cur s1 = (Inr ois, s2)"
      "quoteShipping env cs a cart s2 = (Inl err, s')"
      "prep = zero_orderPrep" "e = Some (Errorf ''shipping quote failure: %+v'' [ArgE err])"
  | (conversion) cart s1 ois s2 shippingUSD s3 err where
      "getUserCart env cs u s = (Inr cart, s1)"
      "prepOrderItems env cs cart cur s1 = (Inr ois, s2)"
      "quoteShipping env cs a cart s2 = (Inr shippingUSD, s3)"
      "convertCurrency env cs shippingUSD cur s3 = (Inl err, s')"
      "prep = zero_orderPrep"
      "e = Some (Errorf ''failed to convert shipping cost to currency: %+v'' [ArgE err])"
  | (ok) cart s1 ois s2 shippingUSD s3 shippingPrice where
      "getUserCart env cs u s = (Inr cart, s1)"
      "prepOrderItems env cs cart cur s1 = (Inr ois, s2)"
      "quoteShipping env cs a cart s2 = (Inr shippingUSD, s3)"
      "convertCurrency env cs shippingUSD cur s3 = (Inr shippingPrice, s')"
      "prep = \<lparr>orderItems = ois, cartItems = cart, shippingCostLocalized = Some shippingPrice\<rparr>"
      "e = None"
  using assms unfolding prepareOrderItemsAndShippingQuoteFromCart_def Let_def
  by (auto simp: zero_orderPrep_def split: prod.splits sum.splits)

lemma prepare_quiet:
  assumes "prepareOrderItemsAndShippingQuoteFromCart env cs u cur a s = ((prep, e), s')"
  shows "quiet_step s s' (e \<noteq> None)"
  using assms
proof (cases rule: prepare_cases)
  case (cart err)
  then show ?thesis using getUserCart_quiet [OF cart(1), simplified] by simp
next
  case (pricing cart s1 err)
  then show ?thesis
    using quiet_step_trans [OF getUserCart_quiet [OF pricing(1), simplified] prepOrderItems_quiet [OF pricing(2), simplified]]
    by simp
next
  case (quote cart s1 ois s2 err)
  then show ?thesis
    using quiet_step_trans [OF getUserCart_quiet [OF quote(1), simplified]
        quiet_step_trans [OF prepOrderItems_quiet [OF quote(2), simplified] quoteShipping_quiet [OF quote(3), simplified]]]
    by simp
next
  case (conversion cart s1 ois s2 shippingUSD s3 err)
  then show ?thesis
    using quiet_step_trans [OF getUserCart_quiet [OF conversion(1), simplified]
        quiet_step_trans [OF prepOrderItems_quiet [OF conversion(2), simplified]
          quiet_step_trans [OF quoteShipping_quiet [OF conversion(3), simplified]
            convertCurrency_quiet [OF conversion(4), simplified]]]]
    by simp
next
  case (ok cart s1 ois s2 shippingUSD s3 shippingPrice)
  then show ?thesis
    using quiet_step_trans [OF getUserCart_quiet [OF ok(1), simplified]
        quiet_step_trans [OF prepOrderItems_quiet [OF ok(2), simplified]
          quiet_step_trans [OF quoteShipping_quiet [OF ok(3), simplified]
            convertCurrency_quiet [OF ok(4), simplified]]]]
    by simp
qed

lemma PlaceOrder_cases:
  assumes "PlaceOrder env cs req s = (r, s')"
  obtains
    (uuid) err where "NewUUID env s = (Inl err, s')"
      "r = Returned (Inl (Status Internal (Errorf ''failed to generate order uuid'' [])))"
  | (prepare) orderID s0 prep err where "NewUUID env s = (Inr orderID, s0)"
      "prepareOrderItemsAndShippingQuoteFromCart env cs
         (user_id req) (user_currency req) (req_address req) s0 = ((prep, Some err), s')"
      "r = Returned (Inl (Status Internal err))"
  | (fatal) orderID s0 prep p where "NewUUID env s = (Inr orderID, s0)"
      "prepareOrderItemsAndShippingQuoteFromCart env cs
         (user_id req) (user_currency req) (req_address req) s0 = ((prep, None), s')"
      "computeTotal (user_currency req) prep = Fatal p"
      "r = Fatal p"
  | (charge) orderID s0 prep s1 tot err where "NewUUID env s = (Inr orderID, s0)"
      "prepareOrderItemsAndShippingQuoteFromCart env cs
         (user_id req) (user_currency req) (req_address req) s0 = ((prep, None), s1)"
      "computeTotal (user_currency req) prep = Returned tot"
      "chargeCard env cs tot (credit_card req) s1 = (Inl err, s')"
      "r = Returned (Inl (Status Internal (Errorf ''failed to charge card: %+v'' [ArgE err])))"
  | (ship) orderID s0 prep s1 tot txID s2 err where "NewUUID env s = (Inr orderID, s0)"
      "prepareOrderItemsAndShippingQuoteFromCart env cs
         (user_id req) (user_currency req) (req_address req) s0 = ((prep, None), s1)"
      "computeTotal (user_currency req) prep = Returned tot"
      "chargeCard env cs tot (credit_card req) s1 = (Inr txID, s2)"
      "shipOrder env cs (req_address req) (cartItems prep) s2 = (Inl err, s')"
      "r = Returned (Inl (Status Unavailable (Errorf ''shipping error: %+v'' [ArgE err])))"
  | (placed) orderID s0 prep s1 tot txID s2 trackingID s3 e1 s4 e2 where
      "NewUUID env s = (Inr orderID, s0)"
      "prepareOrderItemsAndShippingQuoteFromCart env cs
         (user_id req) (user_currency req) (req_address req) s0 = ((prep, None), s1)"
      "computeTotal (user_currency req) prep = Returned tot"
      "chargeCard env cs tot (credit_card req) s1 = (Inr txID, s2)"
      "shipOrder env cs (req_address req) (cartItems prep) s2 = (Inr trackingID, s3)"
      "emptyUserCart env cs (user_id req) s3 = (e1, s4)"
      "sendOrderConfirmation env cs (email req)
         \<lparr>order_id = orderID, shipping_tracking_id = trackingID,
          shipping_cost = shippingCostLocalized prep, shipping_address = req_address req,
          items = orderItems prep\<rparr> s4 = (e2, s')"
      "r = Returned (Inr \<lparr>order =
         \<lparr>order_id = orderID, shipping_tracking_id = trackingID,
          shipping_cost = shippingCostLocalized prep, shipping_address = req_address req,
          items = orderItems prep\<rparr>\<rparr>)"
proof (cases "NewUUID env s")
  case u: (Pair ru s0)
  show ?thesis
  proof (cases ru)
    case (Inl err)
    with u assms show ?thesis by (intro uuid [of err]) (auto simp: PlaceOrder_def)
  next
    case (Inr orderID)
    note uu = u [unfolded Inr]
    obtain prep e s1 where p: "prepareOrderItemsAndShippingQuoteFromCart env cs
         (user_id req) (user_currency req) (req_address req) s0 = ((prep, e), s1)"
      by (metis surj_pair)
    show ?thesis
    proof (cases e)
      case (Some err)
      with uu p assms show ?thesis
        by (intro prepare [of orderID s0 prep err]) (auto simp: PlaceOrder_def)
    next
      case None
      note pp = p [unfolded None]
      show ?thesis
      proof (cases "computeTotal (user_currency req) prep")
        case (Fatal pn)
        with uu pp assms show ?thesis
          by (intro fatal [of orderID s0 prep pn]) (auto simp: PlaceOrder_def)
      next
        case (Returned tot)
        obtain rc s2 where c: "chargeCard env cs tot (credit_card req) s1 = (rc, s2)"
          by (metis surj_pair)
        show ?thesis
        proof (cases rc)
          case (Inl err)
          with uu pp Returned c assms show ?thesis
            by (intro charge [of orderID s0 prep s1 tot err]) (auto simp: PlaceOrder_def)
        next
          case (Inr txID)
          note cc = c [unfolded Inr]
          obtain rs s3 where sh:
            "shipOrder env cs (req_address req) (cartItems prep) s2 = (rs, s3)"
            by (metis surj_pair)
          show ?thesis
          proof (cases rs)
            case (Inl err)
            with uu pp Returned cc sh assms show ?thesis
              by (intro ship [of orderID s0 prep s1 tot txID s2 err])
                 (auto simp: PlaceOrder_def)
          next
            case (Inr trackingID)
            note ss = sh [unfolded Inr]
            obtain e1 s4 where em: "emptyUserCart env cs (user_id req) s3 = (e1, s4)"
              by (metis surj_pair)
            obtain e2 s5 where sd: "sendOrderConfirmation env cs (email req)
               \<lparr>order_id = orderID, shipping_tracking_id = trackingID,
                shipping_cost = shippingCostLocalized prep, shipping_address = req_address req,
                items = orderItems prep\<rparr> s4 = (e2, s5)"
              by (metis surj_pair)
            from uu pp Returned cc ss em sd assms show ?thesis
              by (intro placed [of orderID s0 prep s1 tot txID s2 trackingID s3 e1 s4 e2])
                 (auto simp: PlaceOrder_def Let_def)
          qed
        qed
      qed
    qed
  qed
qed

lemma NewUUID_trace:
  "NewUUID env s = (r, s0) \<Longrightarrow> trace s0 = trace s \<and> next_conn s0 = next_conn s"
  by (auto simp: NewUUID_def split: prod.splits)


lemma quiet_stepE:
  assumes "quiet_step s s' failed"
  obtains evs where "trace s' = trace s @ evs" "charged evs = []" "failed \<longleftrightarrow> \<not> calm evs"
  using assms unfolding quiet_step_def by blast

lemma PlaceOrder_events:
  assumes "PlaceOrder env cs req s = (r, s')"
  obtains
    (uuid) err where "new_events s s' = []" "NewUUID env s = (Inl err, s')"
      "r = Returned (Inl (Status Internal (Errorf ''failed to generate order uuid'' [])))"
  | (prepare) err where "charged (new_events s s') = []" "\<not> calm (new_events s s')"
      "r = Returned (Inl (Status Internal err))"
  | (fatal) p s0 prep where "charged (new_events s s') = []" "calm (new_events s s')"
      "r = Fatal p" "computeTotal (user_currency req) prep = Fatal p"
      "prepareOrderItemsAndShippingQuoteFromCart env cs
         (user_id req) (user_currency req) (req_address req) s0 = ((prep, None), s')"
  | (charge) pevs tot n err s0 prep s1 orderID where "calm pevs" "charged pevs = []"
      "new_events s s' = pevs @ [DialFailed (paymentSvcAddr cs)] \<or>
       new_events s s' = pevs @
         [Dialed (paymentSvcAddr cs, n),
          Rpc (paymentSvcAddr cs, n) (ChargeRequest tot (credit_card req)) False,
          Closed (paymentSvcAddr cs, n)]"
      "r = Returned (Inl (Status Internal (Errorf ''failed to charge card: %+v'' [ArgE err])))"
      "prepareOrderItemsAndShippingQuoteFromCart env cs
         (user_id req) (user_currency req) (req_address req) s0 = ((prep, None), s1)"
      "computeTotal (user_currency req) prep = Returned tot"
      "NewUUID env s = (Inr orderID, s0)"
  | (ship) pevs tot n sevs m its err s0 prep s1 orderID where "calm pevs" "charged pevs = []"
      "new_events s s' = pevs @
         [Dialed (paymentSvcAddr cs, n),
          Rpc (paymentSvcAddr cs, n) (ChargeRequest tot (credit_card req)) True,
          Closed (paymentSvcAddr cs, n)] @ sevs"
      "sevs = [DialFailed (shippingSvcAddr cs)] \<or>
       sevs = [Dialed (shippingSvcAddr cs, m),
               Rpc (shippingSvcAddr cs, m) (ShipOrderRequest (req_address req) its) False,
               Closed (shippingSvcAddr cs, m)]"
      "r = Returned (Inl (Status Unavailable (Errorf ''shipping error: %+v'' [ArgE err])))"
      "prepareOrderItemsAndShippingQuoteFromCart env cs
         (user_id req) (user_currency req) (req_address req) s0 = ((prep, None), s1)"
      "computeTotal (user_currency req) prep = Returned tot"
      "its = cartItems prep"
      "NewUUID env s = (Inr orderID, s0)"
  | (placed) pevs tot n m prep rest orderID trackingID s0 s1 where
      "calm pevs" "charged pevs = []"
      "new_events s s' = pevs @
         [Dialed (paymentSvcAddr cs, n),
          Rpc (paymentSvcAddr cs, n) (ChargeRequest tot (credit_card req)) True,
          Closed (paymentSvcAddr cs, n),
          Dialed (shippingSvcAddr cs, m),
          Rpc (shippingSvcAddr cs, m) (ShipOrderRequest (req_address req) (cartItems prep)) True,
          Closed (shippingSvcAddr cs, m)] @ rest"
      "\<forall>c q ok. Rpc c q ok \<in> set rest \<longrightarrow>
         q = EmptyCartRequest (user_id req) \<or>
         (\<exists>ord. q = SendOrderConfirmationRequest (email req) ord)"
      "computeTotal (user_currency req) prep = Returned tot"
      "r = Returned (Inr \<lparr>order =
         \<lparr>order_id = orderID, shipping_tracking_id = trackingID,
          shipping_cost = shippingCostLocalized prep, shipping_address = req_address req,
          items = orderItems prep\<rparr>\<rparr>)"
      "prepareOrderItemsAndShippingQuoteFromCart env cs
         (user_id req) (user_currency req) (req_address req) s0 = ((prep, None), s1)"
      "calm rest \<longleftrightarrow> calm (new_events s s')"
      "NewUUID env s = (Inr orderID, s0)"
  using assms
proof (cases rule: PlaceOrder_cases)
  case (uuid err)
  then show ?thesis
    using NewUUID_trace [OF uuid(1)] that(1) [of err] by (simp add: new_events_def)
next
  case (prepare orderID s0 prep err)
  from prepare_quiet [OF prepare(2)] obtain evs where
    "trace s' = trace s0 @ evs" "charged evs = []" "\<not> calm evs"
    by (auto elim: quiet_stepE)
  then show ?thesis
    using NewUUID_trace [OF prepare(1)] prepare(3) that(2) [of err]
    by (simp add: new_events_def)
next
  case (fatal orderID s0 prep p)
  from prepare_quiet [OF fatal(2)] obtain evs where
    "trace s' = trace s0 @ evs" "charged evs = []" "calm evs"
    by (auto elim: quiet_stepE)
  then show ?thesis
    using NewUUID_trace [OF fatal(1)] fatal(2,3,4) that(3) [of p prep s0]
    by (simp add: new_events_def)
next
  case (charge orderID s0 prep s1 tot err)
  from prepare_quiet [OF charge(2)] obtain pevs where
    pevs: "trace s1 = trace s0 @ pevs" "charged pevs = []" "calm pevs"
    by (auto elim: quiet_stepE)
  from chargeCard_call [OF charge(4)]
  have "trace s' = trace s1 @ [DialFailed (paymentSvcAddr cs)] \<or>
        trace s' = trace s1 @
         [Dialed (paymentSvcAddr cs, next_conn s1),
          Rpc (paymentSvcAddr cs, next_conn s1) (ChargeRequest tot (credit_card req)) False,
          Closed (paymentSvcAddr cs, next_conn s1)]"
    by (auto simp: single_call_def)
  then show ?thesis
    using NewUUID_trace [OF charge(1)] pevs charge(1,2,3,5)
      that(4) [of pevs "next_conn s1" tot err s0 prep s1 orderID]
    by (auto simp: new_events_def)
next
  case (ship orderID s0 prep s1 tot txID s2 err)
  from prepare_quiet [OF ship(2)] obtain pevs where
    pevs: "trace s1 = trace s0 @ pevs" "charged pevs = []" "calm pevs"
    by (auto elim: quiet_stepE)
  from chargeCard_call [OF ship(4)]
  have c: "trace s2 = trace s1 @
         [Dialed (paymentSvcAddr cs, next_conn s1),
          Rpc (paymentSvcAddr cs, next_conn s1) (ChargeRequest tot (credit_card req)) True,
          Closed (paymentSvcAddr cs, next_conn s1)]"
    by (auto simp: single_call_def)
  from shipOrder_call [OF ship(5)]
  obtain sevs where sevs: "trace s' = trace s2 @ sevs"
    "sevs = [DialFailed (shippingSvcAddr cs)] \<or>
     sevs = [Dialed (shippingSvcAddr cs, next_conn s2),
             Rpc (shippingSvcAddr cs, next_conn s2)
               (ShipOrderRequest (req_address req) (cartItems prep)) False,
             Closed (shippingSvcAddr cs, next_conn s2)]"
    by (auto simp: single_call_def)
  show ?thesis
    using NewUUID_trace [OF ship(1)] pevs c sevs ship(1,2,3,6)
      that(5) [of pevs "next_conn s1" tot sevs "next_conn s2" "cartItems prep" err s0 prep s1
        orderID]
    by (simp add: new_events_def)
next
  case (placed orderID s0 prep s1 tot txID s2 trackingID s3 e1 s4 e2)
  from prepare_quiet [OF placed(2)] obtain pevs where
    pevs: "trace s1 = trace s0 @ pevs" "charged pevs = []" "calm pevs"
    by (auto elim: quiet_stepE)
  from chargeCard_call [OF placed(4)]
  have c: "trace s2 = trace s1 @
         [Dialed (paymentSvcAddr cs, next_conn s1),
          Rpc (paymentSvcAddr cs, next_conn s1) (ChargeRequest tot (credit_card req)) True,
          Closed (paymentSvcAddr cs, next_conn s1)]"
    by (auto simp: single_call_def)
  from shipOrder_call [OF placed(5)]
  have sh: "trace s3 = trace s2 @
            [Dialed (shippingSvcAddr cs, next_conn s2),
             Rpc (shippingSvcAddr cs, next_conn s2)
               (ShipOrderRequest (req_address req) (cartItems prep)) True,
             Closed (shippingSvcAddr cs, next_conn s2)]"
    by (auto simp: single_call_def)
  from emptyUserCart_call [OF placed(6)]
  obtain eevs where eevs: "trace s4 = trace s3 @ eevs"
    "\<forall>c q ok. Rpc c q ok \<in> set eevs \<longrightarrow> q = EmptyCartRequest (user_id req)"
    by (auto simp: single_call_def)
  from sendOrderConfirmation_call [OF placed(7)]
  obtain mevs where mevs: "trace s' = trace s4 @ mevs"
    "\<forall>c q ok. Rpc c q ok \<in> set mevs \<longrightarrow>
       (\<exists>ord. q = SendOrderConfirmationRequest (email req) ord)"
    by (auto simp: single_call_def)
  have rest: "\<forall>c q ok. Rpc c q ok \<in> set (eevs @ mevs) \<longrightarrow>
         q = EmptyCartRequest (user_id req) \<or>
         (\<exists>ord. q = SendOrderConfirmationRequest (email req) ord)"
    using eevs(2) mevs(2) unfolding set_append Un_iff by blast
  show ?thesis
    using NewUUID_trace [OF placed(1)] pevs c sh eevs(1) mevs(1) rest placed(1,2,3,8)
      that(6) [of pevs "next_conn s1" tot "next_conn s2" prep "eevs @ mevs" orderID trackingID
        s0 s1]
    by (simp add: new_events_def)
qed

lemma sum_then_Inr [simp]: "sum_then (Inr t) m = Sum t m"
  by (simp add: sum_then_def)

lemma charged_member:
  "Rpc c (ChargeRequest a k) ok \<in> set evs \<Longrightarrow> a \<in> set (charged evs)"
  by (induction evs rule: charged.induct) auto

lemma charged_none:
  "\<forall>c a k ok. Rpc c (ChargeRequest a k) ok \<notin> set evs \<Longrightarrow> charged evs = []"
proof (induction evs rule: charged.induct)
  case (2 c a k ok es)
  then have False by (meson list.set_intros(1))
  then show ?case ..
qed simp_all

lemma total_loop_spec:
  "total_loop t its = Returned tot \<Longrightarrow>
   \<exists>ois. its = map Some ois \<and> foldl sum_then (Inr t) (map cost ois) = Inr tot"
proof (induction its arbitrary: t)
  case Nil
  then show ?case by simp
next
  case (Cons it rest)
  from Cons.prems obtain oi t' where it: "it = Some oi" and t': "Sum t (cost oi) = Inr t'"
    and rec: "total_loop t' rest = Returned tot"
    by (auto simp: Must_def split: option.splits sum.splits outcome.splits)
  from Cons.IH [OF rec] obtain ois where "rest = map Some ois"
    "foldl sum_then (Inr t') (map cost ois) = Inr tot" by blast
  then show ?case
    using it t' by (intro exI [of _ "oi # ois"]) simp
qed

lemma computeTotal_spec:
  assumes "computeTotal cur prep = Returned tot"
  shows "\<exists>ship ois. shippingCostLocalized prep = Some ship \<and> orderItems prep = map Some ois \<and>
           spec_total cur ship (map cost ois) = Inr tot"
proof -
  from assms obtain ship t1 where ship: "shippingCostLocalized prep = Some ship"
    and t1: "Sum \<lparr>currency_code = cur, units = 0, nanos = 0\<rparr> ship = Inr t1"
    and loop: "total_loop t1 (orderItems prep) = Returned tot"
    by (auto simp: computeTotal_def Must_def Let_def
        split: option.splits sum.splits outcome.splits)
  from total_loop_spec [OF loop] obtain ois where "orderItems prep = map Some ois"
    "foldl sum_then (Inr t1) (map cost ois) = Inr tot" by blast
  then show ?thesis
    using ship t1 by (simp add: spec_total_def)
qed

text \<open>
  Claim C1. When \<^verbatim>\<open>PlaceOrder\<close> returns a response, the run sent exactly one
  \<^verbatim>\<open>Payment.Charge\<close>, and its amount is the total as the specification words it:
  zero Money in the user's currency, plus the localized shipping cost, plus the cost of
  every order item in order, each step with Sum. The shipping cost and the items are the
  ones of the returned order.
\<close>

theorem PlaceOrder_charges_total:
  assumes "PlaceOrder env cs req s = (Returned (Inr resp), s')"
  shows "\<exists>ship ois tot.
           shipping_cost (order resp) = Some ship \<and>
           items (order resp) = map Some ois \<and>
           spec_total (user_currency req) ship (map cost ois) = Inr tot \<and>
           charged (new_events s s') = [tot]"
  using assms
proof (cases rule: PlaceOrder_events)
  case (placed pevs tot n m prep rest orderID trackingID s0 s1)
  have "charged rest = []"
    using placed(4) by (intro charged_none) auto
  then have "charged (new_events s s') = [tot]"
    using placed(2,3) by simp
  moreover from computeTotal_spec [OF placed(5)] obtain ship ois where
    "shippingCostLocalized prep = Some ship" "orderItems prep = map Some ois"
    "spec_total (user_currency req) ship (map cost ois) = Inr tot" by blast
  ultimately show ?thesis
    using placed(6) by auto
qed auto

theorem PlaceOrder_charges_total_witness:
  "fst (sample_run cart1 []) = Returned (Inr \<lparr>order = order1\<rparr>) \<and>
   spec_total ''EUR'' (eur 4 500000000) [eur 9 0, eur 9 0] = Inr (eur 22 500000000) \<and>
   charged (sample_events cart1 []) = [eur 22 500000000]"
proof -
  have r: "fst (sample_run cart1 []) = Returned (Inr \<lparr>order = order1\<rparr>)"
    by (simp add: run_defs)
  then have run: "PlaceOrder (shop cart1 []) svc request1 start
               = (Returned (Inr \<lparr>order = order1\<rparr>), snd (sample_run cart1 []))"
    by (simp add: prod_eq_iff sample_run_def)
  from PlaceOrder_charges_total [OF run] obtain ship ois tot where *:
    "shipping_cost (order \<lparr>order = order1\<rparr>) = Some ship"
    "items (order \<lparr>order = order1\<rparr>) = map Some ois"
    "spec_total (user_currency request1) ship (map cost ois) = Inr tot"
    "charged (new_events start (snd (sample_run cart1 []))) = [tot]"
    by blast
  have c: "charged (sample_events cart1 []) = [eur 22 500000000]"
    by (simp add: run_defs)
  have "ship = eur 4 500000000"
    using *(1) by (simp add: order1_def)
  moreover have "map cost ois = [eur 9 0, eur 9 0]"
    using *(2) by (auto simp: order1_def)
  moreover have "tot = eur 22 500000000"
    using *(4) c by (simp add: sample_events_def)
  ultimately show ?thesis
    using r c *(3) by (simp add: request1_def)
qed

text \<open>
  Claim C2. In a run in which a \<^verbatim>\<open>Payment.Charge\<close> RPC succeeded and no
  \<^verbatim>\<open>Shipping.ShipOrder\<close> RPC succeeded, \<^verbatim>\<open>PlaceOrder\<close> returns a status
  with code Unavailable, and after the charge the run only closes the payment connection
  and makes the shipping attempt that failed (a failed dial, or a dial, the failed
  \<^verbatim>\<open>ShipOrder\<close> and the close). No other RPC follows the charge, and none was a
  charge before it.
\<close>

theorem ship_failure_after_charge:
  assumes "PlaceOrder env cs req s = (r, s')"
    and "Rpc c (ChargeRequest a k) True \<in> set (new_events s s')"
    and "\<forall>c' ad its. Rpc c' (ShipOrderRequest ad its) True \<notin> set (new_events s s')"
  shows "(\<exists>err. r = Returned (Inl (Status Unavailable
                   (Errorf ''shipping error: %+v'' [ArgE err])))) \<and>
         (\<exists>pre post. new_events s s' = pre @ Rpc c (ChargeRequest a k) True # Closed c # post \<and>
            charged pre = [] \<and>
            (post = [DialFailed (shippingSvcAddr cs)] \<or>
             (\<exists>m its. post =
                [Dialed (shippingSvcAddr cs, m),
                 Rpc (shippingSvcAddr cs, m) (ShipOrderRequest (req_address req) its) False,
                 Closed (shippingSvcAddr cs, m)])))"
  using assms(1)
proof (cases rule: PlaceOrder_events)
  case (uuid err)
  then show ?thesis using assms(2) by simp
next
  case (prepare err)
  then show ?thesis using charged_member [OF assms(2)] by simp
next
  case (fatal p s0 prep)
  then show ?thesis using charged_member [OF assms(2)] by simp
next
  case (charge pevs tot n err)
  then have "Rpc c (ChargeRequest a k) True \<in> set pevs"
    using assms(2) by auto
  then show ?thesis using charged_member charge(2) by fastforce
next
  case (ship pevs tot n sevs m its err)
  have "Rpc c (ChargeRequest a k) True \<notin> set pevs"
    using charged_member [of c a k True pevs] ship(2) by auto
  then have eq: "c = (paymentSvcAddr cs, n)" "a = tot" "k = credit_card req"
    using assms(2) ship(3,4) by auto
  have "new_events s s' =
          (pevs @ [Dialed (paymentSvcAddr cs, n)]) @
          Rpc c (ChargeRequest a k) True # Closed c # sevs"
    using ship(3) eq by simp
  moreover have "charged (pevs @ [Dialed (paymentSvcAddr cs, n)]) = []"
    using ship(2) by simp
  ultimately show ?thesis
    using ship(4,5) by blast
next
  case (placed pevs tot n m prep rest orderID trackingID s0 s1)
  have "Rpc (shippingSvcAddr cs, m) (ShipOrderRequest (req_address req) (cartItems prep)) True
          \<in> set (new_events s s')"
    using placed(3) by simp
  then show ?thesis using assms(3) by blast
qed

theorem ship_failure_after_charge_witness:
  "Rpc (''payment:50051'', 6) (ChargeRequest (eur 22 500000000) card) True
     \<in> set (sample_events cart1 [''ShipOrder'']) \<and>
   (\<forall>c' ad its. Rpc c' (ShipOrderRequest ad its) True \<notin> set (sample_events cart1 [''ShipOrder''])) \<and>
   fst (sample_run cart1 [''ShipOrder'']) =
     Returned (Inl (Status Unavailable (Errorf ''shipping error: %+v''
       [ArgE (Errorf ''shipment failed: %+v'' [ArgE (ErrorNew ''no carrier'')])]))) \<and>
   drop 20 (sample_events cart1 [''ShipOrder'']) =
     [Rpc (''payment:50051'', 6) (ChargeRequest (eur 22 500000000) card) True,
      Closed (''payment:50051'', 6), Dialed (''shipping:50051'', 7),
      Rpc (''shipping:50051'', 7) (ShipOrderRequest home cart1) False,
      Closed (''shipping:50051'', 7)] \<and>
   charged (take 20 (sample_events cart1 [''ShipOrder''])) = []"
proof -
  let ?evs = "sample_events cart1 [''ShipOrder'']"
  have run: "PlaceOrder (shop cart1 [''ShipOrder'']) svc request1 start
               = (fst (sample_run cart1 [''ShipOrder'']), snd (sample_run cart1 [''ShipOrder'']))"
    by (simp add: sample_run_def)
  have evs: "?evs = [Dialed (''cart:7070'', 0),
        Rpc (''cart:7070'', 0) (GetCartRequest ''u1'') True,
        Closed (''cart:7070'', 0), Dialed (''catalog:3550'', 1),
        Rpc (''catalog:3550'', 1) (GetProductRequest ''P1'') True,
        Dialed (''currency:7000'', 2),
        Rpc (''currency:7000'', 2) (CurrencyConversionRequest (Some (usd 10 0)) ''EUR'') True,
        Closed (''currency:7000'', 2),
        Rpc (''catalog:3550'', 1) (GetProductRequest ''P2'') True,
        Dialed (''currency:7000'', 3),
        Rpc (''currency:7000'', 3) (CurrencyConversionRequest (Some (usd 10 0)) ''EUR'') True,
        Closed (''currency:7000'', 3), Closed (''catalog:3550'', 1),
        Dialed (''shipping:50051'', 4),
        Rpc (''shipping:50051'', 4) (GetQuoteRequest home cart1) True,
        Closed (''shipping:50051'', 4), Dialed (''currency:7000'', 5),
        Rpc (''currency:7000'', 5) (CurrencyConversionRequest (Some (usd 5 0)) ''EUR'') True,
        Closed (''currency:7000'', 5), Dialed (''payment:50051'', 6),
        Rpc (''payment:50051'', 6) (ChargeRequest (eur 22 500000000) card) True,
        Closed (''payment:50051'', 6), Dialed (''shipping:50051'', 7),
        Rpc (''shipping:50051'', 7) (ShipOrderRequest home cart1) False,
        Closed (''shipping:50051'', 7)]"
    by (simp add: run_defs)
  have h1: "Rpc (''payment:50051'', 6) (ChargeRequest (eur 22 500000000) card) True
              \<in> set (new_events start (snd (sample_run cart1 [''ShipOrder''])))"
    using evs by (simp add: sample_events_def)
  have h2: "\<forall>c' ad its. Rpc c' (ShipOrderRequest ad its) True
              \<notin> set (new_events start (snd (sample_run cart1 [''ShipOrder''])))"
    using evs by (simp add: sample_events_def)
  have r: "fst (sample_run cart1 [''ShipOrder'']) =
     Returned (Inl (Status Unavailable (Errorf ''shipping error: %+v''
       [ArgE (Errorf ''shipment failed: %+v'' [ArgE (ErrorNew ''no carrier'')])])))"
    by (simp add: run_defs)
  have d: "drop 20 ?evs =
     [Rpc (''payment:50051'', 6) (ChargeRequest (eur 22 500000000) card) True,
      Closed (''payment:50051'', 6), Dialed (''shipping:50051'', 7),
      Rpc (''shipping:50051'', 7) (ShipOrderRequest home cart1) False,
      Closed (''shipping:50051'', 7)]"
    "charged (take 20 ?evs) = []"
    unfolding evs by simp_all
  from ship_failure_after_charge [OF run h1 h2] h1 h2 r d show ?thesis
    by (simp add: sample_events_def)
qed

lemma calm_no_failure: "calm evs \<Longrightarrow> is_failure e \<Longrightarrow> e \<notin> set evs"
  by (auto simp: calm_def list_all_iff)

lemma calm_find: "calm evs \<Longrightarrow> find is_failure (evs @ xs) = find is_failure xs"
  by (induction evs) auto

lemma calm_takeWhile:
  "calm evs \<Longrightarrow>
   takeWhile (\<lambda>e. \<not> is_failure e) (evs @ xs) = evs @ takeWhile (\<lambda>e. \<not> is_failure e) xs"
  by (induction evs) auto

text \<open>
  Claim C3. \<^verbatim>\<open>PlaceOrder\<close> returns a status with code Internal and sends no
  \<^verbatim>\<open>Payment.Charge\<close> when a \<^verbatim>\<open>GetCart\<close>, \<^verbatim>\<open>GetProduct\<close>,
  \<^verbatim>\<open>Convert\<close> or \<^verbatim>\<open>GetQuote\<close> RPC failed, and more generally when the first
  dial or RPC that failed is not a charge and no charge went out before it (the failed
  dials of the preparation steps are of this kind). It also returns code Internal when a
  \<^verbatim>\<open>Payment.Charge\<close> RPC failed.
\<close>

theorem failure_before_charge:
  assumes "PlaceOrder env cs req s = (r, s')"
  shows "((\<exists>c q. Rpc c q False \<in> set (new_events s s') \<and> prep_request q) \<longrightarrow>
            internal_error r \<and> charged (new_events s s') = []) \<and>
         (\<forall>f. find is_failure (new_events s s') = Some f \<and> \<not> is_charge f \<and>
              charged (takeWhile (\<lambda>e. \<not> is_failure e) (new_events s s')) = [] \<longrightarrow>
            internal_error r \<and> charged (new_events s s') = []) \<and>
         ((\<exists>c a k. Rpc c (ChargeRequest a k) False \<in> set (new_events s s')) \<longrightarrow>
            internal_error r)"
  using assms
proof (cases rule: PlaceOrder_events)
  case (uuid err)
  then show ?thesis by simp
next
  case (prepare err)
  then show ?thesis by simp
next
  case (fatal p s0 prep)
  then show ?thesis
    using calm_no_failure [OF fatal(2)] calm_find [OF fatal(2), of "[]"] by auto
next
  case (charge pevs tot n err)
  note nf = calm_no_failure [OF charge(1)]
  from charge(3) show ?thesis
  proof
    assume ev: "new_events s s' = pevs @ [DialFailed (paymentSvcAddr cs)]"
    show ?thesis
      using charge(2,4) ev by simp
  next
    assume ev: "new_events s s' = pevs @
         [Dialed (paymentSvcAddr cs, n),
          Rpc (paymentSvcAddr cs, n) (ChargeRequest tot (credit_card req)) False,
          Closed (paymentSvcAddr cs, n)]"
    have "\<And>c q. Rpc c q False \<in> set (new_events s s') \<Longrightarrow> \<not> prep_request q"
      using nf [of "Rpc _ _ False"] ev by auto
    moreover have "find is_failure (new_events s s') =
        Some (Rpc (paymentSvcAddr cs, n) (ChargeRequest tot (credit_card req)) False)"
      using calm_find [OF charge(1)] ev by simp
    ultimately show ?thesis
      using charge(4) by auto
  qed
next
  case (ship pevs tot n sevs m its err)
  note nf = calm_no_failure [OF ship(1)]
  have 1: "\<And>c q. Rpc c q False \<in> set (new_events s s') \<Longrightarrow> \<not> prep_request q"
    using nf [of "Rpc _ _ False"] ship(3,4) by auto
  have 2: "charged (takeWhile (\<lambda>e. \<not> is_failure e) (new_events s s')) \<noteq> []"
    using calm_takeWhile [OF ship(1)] ship(3) by simp
  have 3: "\<And>c a k. Rpc c (ChargeRequest a k) False \<notin> set (new_events s s')"
    using nf [of "Rpc _ _ False"] ship(3,4) by auto
  show ?thesis using 1 2 3 by blast
next
  case (placed pevs tot n m prep rest orderID trackingID s0 s1)
  note nf = calm_no_failure [OF placed(1)]
  have rest: "\<not> prep_request q \<and> \<not> is_charge (Rpc c q ok)"
    if "Rpc c q ok \<in> set rest" for c q ok
  proof -
    from that placed(4) have "q = EmptyCartRequest (user_id req) \<or>
         (\<exists>ord. q = SendOrderConfirmationRequest (email req) ord)" by blast
    then show ?thesis by auto
  qed
  have 1: "\<And>c q. Rpc c q False \<in> set (new_events s s') \<Longrightarrow> \<not> prep_request q"
    using nf [of "Rpc _ _ False"] placed(3) rest by auto
  have 2: "charged (takeWhile (\<lambda>e. \<not> is_failure e) (new_events s s')) \<noteq> []"
    using calm_takeWhile [OF placed(1)] placed(3) by simp
  have 3: "Rpc c (ChargeRequest a k) False \<notin> set (new_events s s')" for c a k
  proof
    assume "Rpc c (ChargeRequest a k) False \<in> set (new_events s s')"
    then have "Rpc c (ChargeRequest a k) False \<in> set rest"
      using nf [of "Rpc c (ChargeRequest a k) False"] placed(3) by auto
    from rest [OF this] show False by simp
  qed
  show ?thesis using 1 2 3 by blast
qed

theorem failure_before_charge_witness:
  "(Rpc (''catalog:3550'', 1) (GetProductRequest ''P2'') False \<in> set (sample_events cart1 [''P2'']) \<and>
    prep_request (GetProductRequest ''P2'') \<and>
    internal_error (fst (sample_run cart1 [''P2''])) \<and>
    charged (sample_events cart1 [''P2'']) = []) \<and>
   (find is_failure (sample_events cart1 [''shipping:50051'']) = Some (DialFailed ''shipping:50051'') \<and>
    \<not> is_charge (DialFailed ''shipping:50051'') \<and>
    charged (takeWhile (\<lambda>e. \<not> is_failure e) (sample_events cart1 [''shipping:50051''])) = [] \<and>
    internal_error (fst (sample_run cart1 [''shipping:50051''])) \<and>
    charged (sample_events cart1 [''shipping:50051'']) = []) \<and>
   (Rpc (''payment:50051'', 6) (ChargeRequest (eur 22 500000000) card) False
      \<in> set (sample_events cart1 [''Charge'']) \<and>
    internal_error (fst (sample_run cart1 [''Charge''])))"
proof -
  have run: "PlaceOrder (shop cart1 faults) svc request1 start
               = (fst (sample_run cart1 faults), snd (sample_run cart1 faults))" for faults
    by (simp add: sample_run_def)
  have a: "Rpc (''catalog:3550'', 1) (GetProductRequest ''P2'') False
             \<in> set (sample_events cart1 [''P2''])"
    "prep_request (GetProductRequest ''P2'')"
    by (simp_all add: run_defs)
  have b: "find is_failure (sample_events cart1 [''shipping:50051''])
             = Some (DialFailed ''shipping:50051'')"
    "\<not> is_charge (DialFailed ''shipping:50051'')"
    "charged (takeWhile (\<lambda>e. \<not> is_failure e) (sample_events cart1 [''shipping:50051''])) = []"
    by (simp_all add: run_defs)
  have c: "Rpc (''payment:50051'', 6) (ChargeRequest (eur 22 500000000) card) False
             \<in> set (sample_events cart1 [''Charge''])"
    by (simp add: run_defs)
  from failure_before_charge [OF run [of "[''P2'']"]] a
  have 1: "internal_error (fst (sample_run cart1 [''P2''])) \<and>
           charged (sample_events cart1 [''P2'']) = []"
    unfolding sample_events_def by blast
  from failure_before_charge [OF run [of "[''shipping:50051'']"]] b
  have 2: "internal_error (fst (sample_run cart1 [''shipping:50051''])) \<and>
           charged (sample_events cart1 [''shipping:50051'']) = []"
    unfolding sample_events_def by blast
  from failure_before_charge [OF run [of "[''Charge'']"]] c
  have 3: "internal_error (fst (sample_run cart1 [''Charge'']))"
    unfolding sample_events_def by blast
  from a b c 1 2 3 show ?thesis by blast
qed


lemma prepare_ok:
  assumes "prepareOrderItemsAndShippingQuoteFromCart env cs u cur a s = ((prep, None), s')"
  shows "priced env cur (cartItems prep) (orderItems prep) \<and>
         (\<exists>ship. shippingCostLocalized prep = Some ship \<and>
            (convert_contract env \<longrightarrow> currency_code ship = cur)) \<and>
         (\<exists>s1. getUserCart env cs u s = (Inr (cartItems prep), s1))"
  using assms
proof (cases rule: prepare_cases)
  case (ok cart s1 ois s2 shippingUSD s3 shippingPrice)
  then show ?thesis
    using prepOrderItems_out [OF ok(2)] convertCurrency_currency [OF _ ok(4)] by auto
qed simp_all

lemma prepare_failed:
  assumes "prepareOrderItemsAndShippingQuoteFromCart env cs u cur a s = ((prep, Some err), s')"
  shows "prep = zero_orderPrep"
  using assms by (cases rule: prepare_cases) simp_all

text \<open>
  Claim C4. Given the contract of \<^verbatim>\<open>Currency.Convert\<close>, a successful
  \<^verbatim>\<open>prepOrderItems\<close> on N cart items returns N entries, the entry at each index
  holding the cart item of that index and a cost in the requested currency; and a
  successful \<^verbatim>\<open>prepareOrderItemsAndShippingQuoteFromCart\<close> returns the fetched cart
  together with such a list for it.
\<close>

theorem prepare_order_items:
  assumes "convert_contract env"
  shows "(prepOrderItems env cs its cur s = (Inr ois, s') \<longrightarrow>
            length ois = length its \<and>
            (\<forall>j < length its. \<exists>c. ois ! j = Some \<lparr>item = its ! j, cost = c\<rparr> \<and>
                 currency_code c = cur)) \<and>
         (prepareOrderItemsAndShippingQuoteFromCart env cs userID cur addr s = ((prep, None), s')
            \<longrightarrow>
            (\<exists>s1. getUserCart env cs userID s = (Inr (cartItems prep), s1)) \<and>
            length (orderItems prep) = length (cartItems prep) \<and>
            (\<forall>j < length (cartItems prep).
               \<exists>c. orderItems prep ! j = Some \<lparr>item = cartItems prep ! j, cost = c\<rparr> \<and>
                   currency_code c = cur))"
proof -
  have "length ois = length its \<and>
        (\<forall>j < length its. \<exists>c. ois ! j = Some \<lparr>item = its ! j, cost = c\<rparr> \<and>
             currency_code c = cur)"
    if "prepOrderItems env cs its cur s = (Inr ois, s')"
    using prepOrderItems_out [OF that] assms by (simp add: priced_def)
  moreover have "(\<exists>s1. getUserCart env cs userID s = (Inr (cartItems prep), s1)) \<and>
            length (orderItems prep) = length (cartItems prep) \<and>
            (\<forall>j < length (cartItems prep).
               \<exists>c. orderItems prep ! j = Some \<lparr>item = cartItems prep ! j, cost = c\<rparr> \<and>
                   currency_code c = cur)"
    if "prepareOrderItemsAndShippingQuoteFromCart env cs userID cur addr s = ((prep, None), s')"
    using prepare_ok [OF that] assms by (simp add: priced_def)
  ultimately show ?thesis by blast
qed

theorem prepare_order_items_witness:
  "convert_contract (shop cart1 []) \<and>
   fst (prepOrderItems (shop cart1 []) svc cart1 ''EUR'' start) = Inr (items order1) \<and>
   fst (prepareOrderItemsAndShippingQuoteFromCart (shop cart1 []) svc ''u1'' ''EUR'' home start)
     = (prep1, None) \<and>
   fst (getUserCart (shop cart1 []) svc ''u1'' start) = Inr cart1 \<and>
   length (items order1) = length cart1 \<and>
   items order1 ! 0 = Some \<lparr>item = cart1 ! 0, cost = eur 9 0\<rparr> \<and>
   items order1 ! 1 = Some \<lparr>item = cart1 ! 1, cost = eur 9 0\<rparr> \<and>
   currency_code (eur 9 0) = ''EUR''"
proof -
  have fp: "fst (prepOrderItems (shop cart1 []) svc cart1 ''EUR'' start) = Inr (items order1)"
    by (simp add: run_defs)
  then have p: "prepOrderItems (shop cart1 []) svc cart1 ''EUR'' start
             = (Inr (items order1), snd (prepOrderItems (shop cart1 []) svc cart1 ''EUR'' start))"
    by (simp add: prod_eq_iff)
  have fq: "fst (prepareOrderItemsAndShippingQuoteFromCart (shop cart1 []) svc
                   ''u1'' ''EUR'' home start) = (prep1, None)"
    by (simp add: run_defs)
  have g: "fst (getUserCart (shop cart1 []) svc ''u1'' start) = Inr cart1"
    by (simp add: run_defs)
  note t = prepare_order_items [OF shop_contract, where cs = svc and its = cart1
      and cur = "''EUR''" and s = start and ois = "items order1" and userID = "''u1''"
      and addr = home and prep = prep1]
  from t p have "length (items order1) = length cart1" by blast
  moreover have "items order1 ! 0 = Some \<lparr>item = cart1 ! 0, cost = eur 9 0\<rparr>"
    "items order1 ! 1 = Some \<lparr>item = cart1 ! 1, cost = eur 9 0\<rparr>"
    "currency_code (eur 9 0) = ''EUR''"
    by (simp_all add: order1_def cart1_def eur_def)
  ultimately show ?thesis
    using shop_contract fp fq g by blast
qed

text \<open>
  Claim C5. \<^verbatim>\<open>prepareOrderItemsAndShippingQuoteFromCart\<close> returns an error exactly
  when one of its dials or RPCs failed, the catalog lookup or the currency conversion of
  any cart item among them. With an error it returns the zero \<^verbatim>\<open>orderPrep\<close>, which
  has no order items; without one it returns an order item for every cart item.
\<close>

theorem prepare_all_or_nothing:
  assumes "prepareOrderItemsAndShippingQuoteFromCart env cs userID cur addr s = ((prep, e), s')"
  shows "(\<not> calm (new_events s s') \<longleftrightarrow> e \<noteq> None) \<and>
         (e \<noteq> None \<longrightarrow> prep = zero_orderPrep) \<and>
         (e = None \<longrightarrow>
            length (orderItems prep) = length (cartItems prep) \<and>
            (\<forall>j < length (cartItems prep).
               \<exists>c. orderItems prep ! j = Some \<lparr>item = cartItems prep ! j, cost = c\<rparr>))"
proof -
  from prepare_quiet [OF assms] have "\<not> calm (new_events s s') \<longleftrightarrow> e \<noteq> None"
    by (auto simp: new_events_def elim!: quiet_stepE)
  moreover have "prep = zero_orderPrep" if "e \<noteq> None"
    using that assms prepare_failed by blast
  moreover have "length (orderItems prep) = length (cartItems prep) \<and>
            (\<forall>j < length (cartItems prep).
               \<exists>c. orderItems prep ! j = Some \<lparr>item = cartItems prep ! j, cost = c\<rparr>)"
    if "e = None"
  proof -
    from that assms prepare_ok [of env cs userID cur addr s prep s']
    have "priced env cur (cartItems prep) (orderItems prep)" by simp
    then show ?thesis unfolding priced_def by blast
  qed
  ultimately show ?thesis by blast
qed

theorem prepare_all_or_nothing_witness:
  "\<not> calm (new_events start (snd (prepareOrderItemsAndShippingQuoteFromCart
       (shop cart1 [''P2'']) svc ''u1'' ''EUR'' home start))) \<and>
   fst (prepareOrderItemsAndShippingQuoteFromCart (shop cart1 [''P2'']) svc ''u1'' ''EUR'' home start)
     = (zero_orderPrep, Some (Errorf ''failed to prepare order: %+v''
          [ArgE (Errorf ''failed to get product #%q'' [ArgS ''P2''])])) \<and>
   orderItems zero_orderPrep = [] \<and>
   calm (new_events start (snd (prepareOrderItemsAndShippingQuoteFromCart
       (shop cart1 []) svc ''u1'' ''EUR'' home start))) \<and>
   fst (prepareOrderItemsAndShippingQuoteFromCart (shop cart1 []) svc ''u1'' ''EUR'' home start)
     = (prep1, None) \<and>
   length (orderItems prep1) = length (cartItems prep1)"
proof -
  let ?bad = "prepareOrderItemsAndShippingQuoteFromCart (shop cart1 [''P2'']) svc
                ''u1'' ''EUR'' home start"
  let ?good = "prepareOrderItemsAndShippingQuoteFromCart (shop cart1 []) svc
                ''u1'' ''EUR'' home start"
  have fb: "fst ?bad = (zero_orderPrep, Some (Errorf ''failed to prepare order: %+v''
          [ArgE (Errorf ''failed to get product #%q'' [ArgS ''P2''])]))"
    by (simp add: run_defs)
  then have b: "?bad = ((zero_orderPrep, Some (Errorf ''failed to prepare order: %+v''
          [ArgE (Errorf ''failed to get product #%q'' [ArgS ''P2''])])), snd ?bad)"
    by (simp add: prod_eq_iff)
  have fg: "fst ?good = (prep1, None)"
    by (simp add: run_defs)
  then have g: "?good = ((prep1, None), snd ?good)"
    by (simp add: prod_eq_iff)
  from prepare_all_or_nothing [OF b] have 1: "\<not> calm (new_events start (snd ?bad))"
    by simp
  from prepare_all_or_nothing [OF g] have 2: "calm (new_events start (snd ?good))"
    "length (orderItems prep1) = length (cartItems prep1)"
    by simp_all
  have "orderItems zero_orderPrep = []"
    by (simp add: zero_orderPrep_def)
  with fb fg 1 2 show ?thesis by blast
qed

text \<open>
  Claim C6. Once the run has an order id, a preparation, a total, a successful charge and
  a successful shipment, \<^verbatim>\<open>PlaceOrder\<close> returns the order result built from the
  order id, the tracking id, the localized shipping cost, the address and the order
  items, whatever \<^verbatim>\<open>emptyUserCart\<close> and \<^verbatim>\<open>sendOrderConfirmation\<close> return
  (\<open>e1\<close> and \<open>e2\<close> are arbitrary), and both steps are run.
\<close>

theorem best_effort_steps:
  assumes "NewUUID env s = (Inr orderID, s0)"
    and "prepareOrderItemsAndShippingQuoteFromCart env cs
           (user_id req) (user_currency req) (req_address req) s0 = ((prep, None), s1)"
    and "computeTotal (user_currency req) prep = Returned tot"
    and "chargeCard env cs tot (credit_card req) s1 = (Inr txID, s2)"
    and "shipOrder env cs (req_address req) (cartItems prep) s2 = (Inr trackingID, s3)"
    and "ord = \<lparr>order_id = orderID, shipping_tracking_id = trackingID,
                shipping_cost = shippingCostLocalized prep,
                shipping_address = req_address req, items = orderItems prep\<rparr>"
    and "emptyUserCart env cs (user_id req) s3 = (e1, s4)"
    and "sendOrderConfirmation env cs (email req) ord s4 = (e2, s5)"
  shows "PlaceOrder env cs req s = (Returned (Inr \<lparr>order = ord\<rparr>), s5)"
  using assms by (simp add: PlaceOrder_def Let_def)

theorem best_effort_steps_witness:
  "Rpc (''cart:7070'', 8) (EmptyCartRequest ''u1'') False
     \<in> set (sample_events cart1 [''EmptyCart'', ''email:8080'']) \<and>
   DialFailed ''email:8080'' \<in> set (sample_events cart1 [''EmptyCart'', ''email:8080'']) \<and>
   fst (sample_run cart1 [''EmptyCart'', ''email:8080'']) = Returned (Inr \<lparr>order = order1\<rparr>) \<and>
   fst (sample_run cart1 []) = Returned (Inr \<lparr>order = order1\<rparr>) \<and>
   calm (sample_events cart1 [])"
proof -
  let ?E = "shop cart1 [''EmptyCart'', ''email:8080'']"
  let ?prep = "prepareOrderItemsAndShippingQuoteFromCart ?E svc
                 (user_id request1) (user_currency request1) (req_address request1) start"
  let ?charge = "chargeCard ?E svc (eur 22 500000000) (credit_card request1) (snd ?prep)"
  let ?ship = "shipOrder ?E svc (req_address request1) (cartItems prep1) (snd ?charge)"
  let ?empty = "emptyUserCart ?E svc (user_id request1) (snd ?ship)"
  let ?send = "sendOrderConfirmation ?E svc (email request1) order1 (snd ?empty)"
  have h1: "NewUUID ?E start = (Inr ''order-1'', start)"
    by (simp add: run_defs)
  have "fst ?prep = (prep1, None)"
    by (simp add: run_defs)
  then have h2: "?prep = ((prep1, None), snd ?prep)"
    by (simp add: prod_eq_iff)
  have h3: "computeTotal (user_currency request1) prep1 = Returned (eur 22 500000000)"
    by (simp add: run_defs)
  have "fst ?charge = Inr ''tx-1''"
    by (simp add: run_defs)
  then have h4: "?charge = (Inr ''tx-1'', snd ?charge)"
    by (simp add: prod_eq_iff)
  have "fst ?ship = Inr ''track-1''"
    by (simp add: run_defs)
  then have h5: "?ship = (Inr ''track-1'', snd ?ship)"
    by (simp add: prod_eq_iff)
  have h6: "order1 = \<lparr>order_id = ''order-1'', shipping_tracking_id = ''track-1'',
                shipping_cost = shippingCostLocalized prep1,
                shipping_address = req_address request1, items = orderItems prep1\<rparr>"
    by (simp add: run_defs)
  have h7: "?empty = (fst ?empty, snd ?empty)" by simp
  have h8: "?send = (fst ?send, snd ?send)" by simp
  from best_effort_steps [OF h1 h2 h3 h4 h5 h6 h7 h8]
  have "fst (sample_run cart1 [''EmptyCart'', ''email:8080'']) = Returned (Inr \<lparr>order = order1\<rparr>)"
    by (simp add: sample_run_def)
  moreover have "Rpc (''cart:7070'', 8) (EmptyCartRequest ''u1'') False
     \<in> set (sample_events cart1 [''EmptyCart'', ''email:8080''])"
    "DialFailed ''email:8080'' \<in> set (sample_events cart1 [''EmptyCart'', ''email:8080''])"
    "fst (sample_run cart1 []) = Returned (Inr \<lparr>order = order1\<rparr>)"
    "calm (sample_events cart1 [])"
    by (simp_all add: run_defs)
  ultimately show ?thesis by blast
qed

lemma total_loop_no_mismatch:
  "currency_code t = cur \<Longrightarrow>
   \<forall>oi. Some oi \<in> set its \<longrightarrow> currency_code (cost oi) = cur \<Longrightarrow>
   total_loop t its \<noteq> Fatal (MustPanic e)"
proof (induction its arbitrary: t)
  case Nil
  then show ?case by simp
next
  case (Cons it rest)
  show ?case
  proof (cases it)
    case None
    then show ?thesis by simp
  next
    case (Some oi)
    with Cons.prems have "currency_code t = currency_code (cost oi)" by simp
    from Sum_total [OF this] obtain t' where t': "Sum t (cost oi) = Inr t'" by blast
    have "currency_code t' = cur"
      using Sum_currency [OF t'] Cons.prems(1) by simp
    from Cons.IH [OF this] Cons.prems(2) have "total_loop t' rest \<noteq> Fatal (MustPanic e)"
      by simp
    then show ?thesis using Some t' by (simp add: Must_def)
  qed
qed

lemma computeTotal_no_mismatch:
  assumes "\<forall>ship. shippingCostLocalized prep = Some ship \<longrightarrow> currency_code ship = cur"
    and "\<forall>oi. Some oi \<in> set (orderItems prep) \<longrightarrow> currency_code (cost oi) = cur"
  shows "computeTotal cur prep \<noteq> Fatal (MustPanic e)"
proof (cases "shippingCostLocalized prep")
  case None
  then show ?thesis by (simp add: computeTotal_def)
next
  case (Some ship)
  with assms(1) have "currency_code \<lparr>currency_code = cur, units = 0, nanos = 0\<rparr>
                        = currency_code ship" by simp
  from Sum_total [OF this] obtain t1 where
    t1: "Sum \<lparr>currency_code = cur, units = 0, nanos = 0\<rparr> ship = Inr t1" by blast
  have "currency_code t1 = cur" using Sum_currency [OF t1] by simp
  from total_loop_no_mismatch [OF this assms(2)] show ?thesis
    using Some t1 by (simp add: computeTotal_def Must_def)
qed

lemma total_loop_filled:
  "total_loop t its = Fatal NilDereference \<Longrightarrow> None \<in> set its"
proof (induction its arbitrary: t)
  case Nil
  then show ?case by simp
next
  case (Cons it rest)
  then show ?case
    by (cases it) (auto simp: Must_def split: sum.splits outcome.splits)
qed

lemma priced_set:
  assumes "priced env cur its ois" "x \<in> set ois"
  shows "\<exists>oi. x = Some oi \<and> (convert_contract env \<longrightarrow> currency_code (cost oi) = cur)"
proof -
  from assms(2) obtain j where "j < length ois" "ois ! j = x"
    by (auto simp: in_set_conv_nth)
  with assms(1) show ?thesis
    unfolding priced_def by force
qed

lemma prepared_total:
  assumes "convert_contract env"
    and "prepareOrderItemsAndShippingQuoteFromCart env cs u cur a s = ((prep, None), s')"
  shows "\<exists>tot. computeTotal cur prep = Returned tot"
proof -
  note ok = prepare_ok [OF assms(2)]
  from ok assms(1) obtain ship where ship: "shippingCostLocalized prep = Some ship"
    "currency_code ship = cur" by blast
  have its: "\<exists>oi. x = Some oi \<and> currency_code (cost oi) = cur" if "x \<in> set (orderItems prep)" for x
    using priced_set [OF _ that] ok assms(1) by blast
  have 1: "computeTotal cur prep \<noteq> Fatal (MustPanic e)" for e
    using ship its by (intro computeTotal_no_mismatch) auto
  have "None \<notin> set (orderItems prep)"
    using its by fastforce
  then have 2: "computeTotal cur prep \<noteq> Fatal NilDereference"
    using ship total_loop_filled
    by (auto simp: computeTotal_def Let_def Must_def split: sum.splits outcome.splits)
  show ?thesis
  proof (cases "computeTotal cur prep")
    case (Fatal p)
    with 1 2 show ?thesis by (cases p) auto
  next
    case (Returned tot)
    then show ?thesis by blast
  qed
qed

text \<open>
  Claim C8. When the localized shipping cost and every order item cost of a preparation
  are in the user's currency, no \<^verbatim>\<open>Must\<close> in the computation of the total is fatal,
  that is, no Sum there fails. In \<^verbatim>\<open>PlaceOrder\<close>, where the costs come from
  \<^verbatim>\<open>Currency.Convert\<close>, the contract of that service rules out every fatal end.
\<close>

theorem computeTotal_never_fatal:
  "((\<forall>ship. shippingCostLocalized prep = Some ship \<longrightarrow> currency_code ship = cur) \<and>
    (\<forall>oi. Some oi \<in> set (orderItems prep) \<longrightarrow> currency_code (cost oi) = cur) \<longrightarrow>
      (\<forall>e. computeTotal cur prep \<noteq> Fatal (MustPanic e))) \<and>
   (convert_contract env \<and> PlaceOrder env cs req s = (r, s') \<longrightarrow> (\<forall>p. r \<noteq> Fatal p))"
proof -
  have "\<forall>p. r \<noteq> Fatal p" if c: "convert_contract env" and run: "PlaceOrder env cs req s = (r, s')"
    using run
  proof (cases rule: PlaceOrder_events)
    case (fatal p s0 prep)
    with prepared_total [OF c fatal(5)] show ?thesis by simp
  qed auto
  then show ?thesis
    using computeTotal_no_mismatch [of prep cur] by blast
qed

theorem computeTotal_never_fatal_witness:
  "shippingCostLocalized prep1 = Some (eur 4 500000000) \<and>
   currency_code (eur 4 500000000) = ''EUR'' \<and>
   map (map_option (\<lambda>oi. currency_code (cost oi))) (orderItems prep1)
     = [Some ''EUR'', Some ''EUR''] \<and>
   computeTotal ''EUR'' prep1 = Returned (eur 22 500000000) \<and>
   (\<forall>e. computeTotal ''EUR'' prep1 \<noteq> Fatal (MustPanic e)) \<and>
   convert_contract (shop cart1 []) \<and>
   (\<forall>p. fst (sample_run cart1 []) \<noteq> Fatal p)"
proof -
  have a: "\<forall>ship. shippingCostLocalized prep1 = Some ship \<longrightarrow> currency_code ship = ''EUR''"
    by (simp add: prep1_def eur_def)
  have b: "\<forall>oi. Some oi \<in> set (orderItems prep1) \<longrightarrow> currency_code (cost oi) = ''EUR''"
    by (auto simp: prep1_def order1_def eur_def)
  have run: "PlaceOrder (shop cart1 []) svc request1 start
               = (fst (sample_run cart1 []), snd (sample_run cart1 []))"
    by (simp add: sample_run_def)
  note t = computeTotal_never_fatal [where prep = prep1 and cur = "''EUR''"
      and env = "shop cart1 []" and cs = svc and req = request1 and s = start
      and r = "fst (sample_run cart1 [])" and s' = "snd (sample_run cart1 [])"]
  from t a b have 1: "\<forall>e. computeTotal ''EUR'' prep1 \<noteq> Fatal (MustPanic e)"
    by blast
  from t shop_contract run have 2: "\<forall>p. fst (sample_run cart1 []) \<noteq> Fatal p"
    by blast
  have "shippingCostLocalized prep1 = Some (eur 4 500000000)"
    "currency_code (eur 4 500000000) = ''EUR''"
    "map (map_option (\<lambda>oi. currency_code (cost oi))) (orderItems prep1)
       = [Some ''EUR'', Some ''EUR'']"
    "computeTotal ''EUR'' prep1 = Returned (eur 22 500000000)"
    by (simp_all add: run_defs)
  with 1 2 shop_contract show ?thesis by blast
qed


section \<open>The adapters against the pattern\<close>

lemmas call_defs = one_call_def DialContext_def invoke_def Close_def

lemma getUserCart_one_call:
  "getUserCart env cs u s =
     apfst (wrap_both ''could not connect cart service: %+v''
                      ''failed to get user cart during checkout: %+v'')
       (one_call env (cartSvcAddr cs) (GetCartRequest u) (Cart_GetCart env (cartSvcAddr cs) u) s)"
  by (simp add: getUserCart_def call_defs split: prod.splits option.splits sum.splits)

lemma emptyUserCart_one_call:
  "emptyUserCart env cs u s =
     apfst (wrap_both_error ''could not connect cart service: %+v''
                            ''failed to empty user cart during checkout: %+v'')
       (one_call env (cartSvcAddr cs) (EmptyCartRequest u)
          (Cart_EmptyCart env (cartSvcAddr cs) u) s)"
  by (simp add: emptyUserCart_def call_defs split: prod.splits option.splits sum.splits)

lemma convertCurrency_one_call:
  "convertCurrency env cs src dst s =
     apfst (wrap_both ''could not connect currency service: %+v''
                      ''failed to convert currency: %+v'')
       (one_call env (currencySvcAddr cs) (CurrencyConversionRequest src dst)
          (Currency_Convert env (currencySvcAddr cs) src dst) s)"
  by (simp add: convertCurrency_def call_defs split: prod.splits option.splits sum.splits)

lemma quoteShipping_one_call:
  "quoteShipping env cs a its s =
     apfst (wrap_both ''could not connect shipping service: %+v''
                      ''failed to get shipping quote: %+v'')
       (one_call env (shippingSvcAddr cs) (GetQuoteRequest a its)
          (Shipping_GetQuote env (shippingSvcAddr cs) a its) s)"
  by (simp add: quoteShipping_def call_defs split: prod.splits option.splits sum.splits)

lemma chargeCard_one_call:
  "chargeCard env cs amt k s =
     apfst (wrap_both ''failed to connect payment service: %+v''
                      ''could not charge the card: %+v'')
       (one_call env (paymentSvcAddr cs) (ChargeRequest amt k)
          (Payment_Charge env (paymentSvcAddr cs) amt k) s)"
  by (simp add: chargeCard_def call_defs split: prod.splits option.splits sum.splits)

lemma shipOrder_one_call:
  "\<exists>dialMsg. \<forall>env cs a its (s :: 'w st). shipOrder env cs a its s =
     apfst (wrap_both dialMsg ''shipment failed: %+v'')
       (one_call env (shippingSvcAddr cs) (ShipOrderRequest a its)
          (Shipping_ShipOrder env (shippingSvcAddr cs) a its) s)"
  by (rule exI [of _ "''failed to connect email service: %+v''"])
     (simp add: shipOrder_def call_defs split: prod.splits option.splits sum.splits)

lemma sendOrderConfirmation_one_call:
  "sendOrderConfirmation env cs em ord s =
     apfst (wrap_dial_error ''failed to connect email service: %+v'')
       (one_call env (emailSvcAddr cs) (SendOrderConfirmationRequest em ord)
          (Email_SendOrderConfirmation env (emailSvcAddr cs) em ord) s)"
  by (simp add: sendOrderConfirmation_def call_defs split: prod.splits option.splits sum.splits)

lemma names:
  "mentions ''cart'' ''could not connect cart service: %+v''"
  "mentions ''cart'' ''failed to get user cart during checkout: %+v''"
  "mentions ''cart'' ''failed to empty user cart during checkout: %+v''"
  "mentions ''currency'' ''could not connect currency service: %+v''"
  "mentions ''currency'' ''failed to convert currency: %+v''"
  "mentions ''shipping'' ''could not connect shipping service: %+v''"
  "mentions ''shipping'' ''failed to get shipping quote: %+v''"
  "mentions ''payment'' ''failed to connect payment service: %+v''"
  "mentions ''charge'' ''could not charge the card: %+v''"
  "mentions ''shipment'' ''shipment failed: %+v''"
  "mentions ''email'' ''failed to connect email service: %+v''"
  "mentions ''product catalog'' ''could not connect product catalog service: %+v''"
  "\<not> mentions ''payment'' ''could not charge the card: %+v''"
  "\<not> mentions ''shipping'' ''shipment failed: %+v''"
  by simp_all

lemma prepOrderItems_loop_price:
  "i + length its \<le> length out \<Longrightarrow>
   prepOrderItems_loop env cs c cur i its out s =
     (case price_items env cs c cur its s of
        (Inl e, s') \<Rightarrow> (Inl e, s')
      | (Inr ois, s') \<Rightarrow>
          (Inr (take i out @ map Some ois @ drop (i + length its) out), s'))"
proof (induction its arbitrary: i out s)
  case Nil
  then show ?case by simp
next
  case (Cons it rest)
  have len: "Suc i + length rest \<le> length (out[i := x])" for x
    using Cons.prems by simp
  have i: "i < length out" using Cons.prems by simp
  have t: "take (Suc i) (out[i := x]) = take i out @ [x]" for x
    using i by (simp add: take_Suc_conv_app_nth)
  have d: "drop (Suc (i + length rest)) (out[i := x]) = drop (Suc (i + length rest)) out" for x
    by simp
  show ?case
    by (simp add: Cons.IH [OF len] t d split: prod.splits sum.splits)
qed

lemma prepOrderItems_price:
  "prepOrderItems env cs its cur s =
     (case DialContext env (productCatalogSvcAddr cs) s of
        (Inl err, s1) \<Rightarrow>
          (Inl (Errorf ''could not connect product catalog service: %+v'' [ArgE err]), s1)
      | (Inr c, s1) \<Rightarrow>
          (case price_items env cs c cur its s1 of
             (Inl e, s2) \<Rightarrow> (Inl e, Close c s2)
           | (Inr ois, s2) \<Rightarrow> (Inr (map Some ois), Close c s2)))"
  by (simp add: prepOrderItems_def prepOrderItems_loop_price split: prod.splits sum.splits)

text \<open>
  Claim C7, as amended. Every adapter opens a fresh connection to the address of its own
  collaborator for the call and releases it before returning, on success and on failure
  alike. \<^verbatim>\<open>getUserCart\<close>, \<^verbatim>\<open>emptyUserCart\<close>, \<^verbatim>\<open>convertCurrency\<close>,
  \<^verbatim>\<open>quoteShipping\<close>, \<^verbatim>\<open>chargeCard\<close>, \<^verbatim>\<open>shipOrder\<close> and
  \<^verbatim>\<open>sendOrderConfirmation\<close> issue exactly one RPC over it: each is \<open>one_call\<close> to
  its address with its request, surfaced as follows. A failed dial or RPC comes back
  wrapped with its cause in a message that names the collaborator (cart, currency,
  shipping, payment, email) or, for the failed RPCs of \<^verbatim>\<open>chargeCard\<close> and
  \<^verbatim>\<open>shipOrder\<close>, the operation (charge, shipment); \<^verbatim>\<open>sendOrderConfirmation\<close>
  returns a failed RPC's error as it is; of the failed dial of \<^verbatim>\<open>shipOrder\<close> only
  that its cause is wrapped, in one message for every call, is stated. \<^verbatim>\<open>prepOrderItems\<close> wraps a failed dial in a
  message naming the product catalog; otherwise it prices the items as \<open>price_items\<close>
  says, over its one connection, which it closes last: it sends the lookups of the first
  \<open>n\<close> cart items over that connection, all of them when it succeeds, and it fails
  exactly when a lookup or a conversion failed.
\<close>

theorem adapter_calls:
  "(let dialMsg = ''could not connect cart service: %+v'';
        rpcMsg = ''failed to get user cart during checkout: %+v'' in
      getUserCart env cs u s =
        apfst (wrap_both dialMsg rpcMsg)
          (one_call env (cartSvcAddr cs) (GetCartRequest u)
             (Cart_GetCart env (cartSvcAddr cs) u) s) \<and>
      mentions ''cart'' dialMsg \<and> mentions ''cart'' rpcMsg) \<and>
   (let dialMsg = ''could not connect cart service: %+v'';
        rpcMsg = ''failed to empty user cart during checkout: %+v'' in
      emptyUserCart env cs u s =
        apfst (wrap_both_error dialMsg rpcMsg)
          (one_call env (cartSvcAddr cs) (EmptyCartRequest u)
             (Cart_EmptyCart env (cartSvcAddr cs) u) s) \<and>
      mentions ''cart'' dialMsg \<and> mentions ''cart'' rpcMsg) \<and>
   (let dialMsg = ''could not connect currency service: %+v'';
        rpcMsg = ''failed to convert currency: %+v'' in
      convertCurrency env cs src dst s =
        apfst (wrap_both dialMsg rpcMsg)
          (one_call env (currencySvcAddr cs) (CurrencyConversionRequest src dst)
             (Currency_Convert env (currencySvcAddr cs) src dst) s) \<and>
      mentions ''currency'' dialMsg \<and> mentions ''currency'' rpcMsg) \<and>
   (let dialMsg = ''could not connect shipping service: %+v'';
        rpcMsg = ''failed to get shipping quote: %+v'' in
      quoteShipping env cs a its s =
        apfst (wrap_both dialMsg rpcMsg)
          (one_call env (shippingSvcAddr cs) (GetQuoteRequest a its)
             (Shipping_GetQuote env (shippingSvcAddr cs) a its) s) \<and>
      mentions ''shipping'' dialMsg \<and> mentions ''shipping'' rpcMsg) \<and>
   (let dialMsg = ''failed to connect payment service: %+v'';
        rpcMsg = ''could not charge the card: %+v'' in
      chargeCard env cs amt k s =
        apfst (wrap_both dialMsg rpcMsg)
          (one_call env (paymentSvcAddr cs) (ChargeRequest amt k)
             (Payment_Charge env (paymentSvcAddr cs) amt k) s) \<and>
      mentions ''payment'' dialMsg \<and> mentions ''charge'' rpcMsg) \<and>
   (let rpcMsg = ''shipment failed: %+v'' in
      (\<exists>dialMsg. \<forall>a its s. shipOrder env cs a its s =
         apfst (wrap_both dialMsg rpcMsg)
           (one_call env (shippingSvcAddr cs) (ShipOrderRequest a its)
              (Shipping_ShipOrder env (shippingSvcAddr cs) a its) s)) \<and>
      mentions ''shipment'' rpcMsg) \<and>
   (let dialMsg = ''failed to connect email service: %+v'' in
      sendOrderConfirmation env cs em ord s =
        apfst (wrap_dial_error dialMsg)
          (one_call env (emailSvcAddr cs) (SendOrderConfirmationRequest em ord)
             (Email_SendOrderConfirmation env (emailSvcAddr cs) em ord) s) \<and>
      mentions ''email'' dialMsg) \<and>
   (let dialMsg = ''could not connect product catalog service: %+v'' in
      prepOrderItems env cs cart cur s =
        (case DialContext env (productCatalogSvcAddr cs) s of
           (Inl err, s1) \<Rightarrow> (Inl (Errorf dialMsg [ArgE err]), s1)
         | (Inr c, s1) \<Rightarrow>
             (case price_items env cs c cur cart s1 of
                (Inl e, s2) \<Rightarrow> (Inl e, Close c s2)
              | (Inr ois, s2) \<Rightarrow> (Inr (map Some ois), Close c s2))) \<and>
      mentions ''product catalog'' dialMsg) \<and>
   (prepOrderItems env cs cart cur s = (rprep, s') \<longrightarrow>
      (isl rprep \<and> trace s' = trace s @ [DialFailed (productCatalogSvcAddr cs)]) \<or>
      (\<exists>body n. trace s' = trace s @ Dialed (productCatalogSvcAddr cs, next_conn s) # body
                       @ [Closed (productCatalogSvcAddr cs, next_conn s)] \<and>
            Closed (productCatalogSvcAddr cs, next_conn s) \<notin> set body \<and>
            Dialed (productCatalogSvcAddr cs, next_conn s) \<notin> set body \<and>
            (isl rprep \<longleftrightarrow> \<not> calm body) \<and>
            n \<le> length cart \<and> (\<not> isl rprep \<longrightarrow> n = length cart) \<and>
            over (productCatalogSvcAddr cs, next_conn s) body = lookups (take n cart)))"
proof -
  have ship: "\<exists>dialMsg. \<forall>a its s. shipOrder env cs a its s =
         apfst (wrap_both dialMsg ''shipment failed: %+v'')
           (one_call env (shippingSvcAddr cs) (ShipOrderRequest a its)
              (Shipping_ShipOrder env (shippingSvcAddr cs) a its) s)"
    using shipOrder_one_call by blast
  have shape: "prepOrderItems env cs cart cur s = (rprep, s') \<longrightarrow>
      (isl rprep \<and> trace s' = trace s @ [DialFailed (productCatalogSvcAddr cs)]) \<or>
      (\<exists>body n. trace s' = trace s @ Dialed (productCatalogSvcAddr cs, next_conn s) # body
                       @ [Closed (productCatalogSvcAddr cs, next_conn s)] \<and>
            Closed (productCatalogSvcAddr cs, next_conn s) \<notin> set body \<and>
            Dialed (productCatalogSvcAddr cs, next_conn s) \<notin> set body \<and>
            (isl rprep \<longleftrightarrow> \<not> calm body) \<and>
            n \<le> length cart \<and> (\<not> isl rprep \<longrightarrow> n = length cart) \<and>
            over (productCatalogSvcAddr cs, next_conn s) body = lookups (take n cart))"
  proof
    assume "prepOrderItems env cs cart cur s = (rprep, s')"
    from prepOrderItems_events [OF this] show
     "(isl rprep \<and> trace s' = trace s @ [DialFailed (productCatalogSvcAddr cs)]) \<or>
      (\<exists>body n. trace s' = trace s @ Dialed (productCatalogSvcAddr cs, next_conn s) # body
                       @ [Closed (productCatalogSvcAddr cs, next_conn s)] \<and>
            Closed (productCatalogSvcAddr cs, next_conn s) \<notin> set body \<and>
            Dialed (productCatalogSvcAddr cs, next_conn s) \<notin> set body \<and>
            (isl rprep \<longleftrightarrow> \<not> calm body) \<and>
            n \<le> length cart \<and> (\<not> isl rprep \<longrightarrow> n = length cart) \<and>
            over (productCatalogSvcAddr cs, next_conn s) body = lookups (take n cart))"
      by blast
  qed
  show ?thesis
    unfolding Let_def
    by (intro conjI getUserCart_one_call emptyUserCart_one_call convertCurrency_one_call
        quoteShipping_one_call chargeCard_one_call sendOrderConfirmation_one_call
        prepOrderItems_price ship shape names)
qed

lemmas call_eval = one_call_def shop_def svc_def start_def cart1_def home_def card_def
  usd_def eur_def exchange_def order1_def Let_def

theorem adapter_calls_witness:
  "getUserCart (shop cart1 [''GetCart'']) svc ''u1'' start =
     (Inl (Errorf ''failed to get user cart during checkout: %+v'' [ArgE (ErrorNew ''cart down'')]),
      \<lparr>world = (),
       trace = [Dialed (''cart:7070'', 0), Rpc (''cart:7070'', 0) (GetCartRequest ''u1'') False,
                Closed (''cart:7070'', 0)],
       next_conn = 1\<rparr>) \<and>
   emptyUserCart (shop cart1 []) svc ''u1'' start =
     (None,
      \<lparr>world = (),
       trace = [Dialed (''cart:7070'', 0), Rpc (''cart:7070'', 0) (EmptyCartRequest ''u1'') True,
                Closed (''cart:7070'', 0)],
       next_conn = 1\<rparr>) \<and>
   convertCurrency (shop cart1 [''currency:7000'']) svc (Some (usd 5 0)) ''EUR'' start =
     (Inl (Errorf ''could not connect currency service: %+v'' [ArgE (ErrorNew ''unreachable'')]),
      \<lparr>world = (), trace = [DialFailed ''currency:7000''], next_conn = 0\<rparr>) \<and>
   quoteShipping (shop cart1 []) svc home cart1 start =
     (Inr (Some (usd 5 0)),
      \<lparr>world = (),
       trace = [Dialed (''shipping:50051'', 0),
                Rpc (''shipping:50051'', 0) (GetQuoteRequest home cart1) True,
                Closed (''shipping:50051'', 0)],
       next_conn = 1\<rparr>) \<and>
   chargeCard (shop cart1 [''Charge'']) svc (eur 22 500000000) card start =
     (Inl (Errorf ''could not charge the card: %+v'' [ArgE (ErrorNew ''declined'')]),
      \<lparr>world = (),
       trace = [Dialed (''payment:50051'', 0),
                Rpc (''payment:50051'', 0) (ChargeRequest (eur 22 500000000) card) False,
                Closed (''payment:50051'', 0)],
       next_conn = 1\<rparr>) \<and>
   shipOrder (shop cart1 [''ShipOrder'']) svc home cart1 start =
     (Inl (Errorf ''shipment failed: %+v'' [ArgE (ErrorNew ''no carrier'')]),
      \<lparr>world = (),
       trace = [Dialed (''shipping:50051'', 0),
                Rpc (''shipping:50051'', 0) (ShipOrderRequest home cart1) False,
                Closed (''shipping:50051'', 0)],
       next_conn = 1\<rparr>) \<and>
   sendOrderConfirmation (shop cart1 [''email:8080'']) svc ''u1@example.com'' order1 start =
     (Some (Errorf ''failed to connect email service: %+v'' [ArgE (ErrorNew ''unreachable'')]),
      \<lparr>world = (), trace = [DialFailed ''email:8080''], next_conn = 0\<rparr>) \<and>
   prepOrderItems (shop cart1 [''P2'']) svc cart1 ''EUR'' start =
     (Inl (Errorf ''failed to get product #%q'' [ArgS ''P2'']),
      \<lparr>world = (),
       trace = [Dialed (''catalog:3550'', 0),
                Rpc (''catalog:3550'', 0) (GetProductRequest ''P1'') True,
                Dialed (''currency:7000'', 1),
                Rpc (''currency:7000'', 1)
                  (CurrencyConversionRequest (Some (usd 10 0)) ''EUR'') True,
                Closed (''currency:7000'', 1),
                Rpc (''catalog:3550'', 0) (GetProductRequest ''P2'') False,
                Closed (''catalog:3550'', 0)],
       next_conn = 2\<rparr>) \<and>
   fst (prepOrderItems (shop cart1 []) svc cart1 ''EUR'' start) = Inr (items order1) \<and>
   over (''catalog:3550'', 0)
     (trace (snd (prepOrderItems (shop cart1 []) svc cart1 ''EUR'' start))) = lookups cart1"
proof -
  note t = adapter_calls [unfolded Let_def]
  have 1: "getUserCart (shop cart1 [''GetCart'']) svc ''u1'' start =
     (Inl (Errorf ''failed to get user cart during checkout: %+v'' [ArgE (ErrorNew ''cart down'')]),
      \<lparr>world = (),
       trace = [Dialed (''cart:7070'', 0), Rpc (''cart:7070'', 0) (GetCartRequest ''u1'') False,
                Closed (''cart:7070'', 0)],
       next_conn = 1\<rparr>)"
    by (subst t [THEN conjunct1, THEN conjunct1]) (simp add: call_eval)
  have 2: "emptyUserCart (shop cart1 []) svc ''u1'' start =
     (None,
      \<lparr>world = (),
       trace = [Dialed (''cart:7070'', 0), Rpc (''cart:7070'', 0) (EmptyCartRequest ''u1'') True,
                Closed (''cart:7070'', 0)],
       next_conn = 1\<rparr>)"
    by (subst t [THEN conjunct2, THEN conjunct1, THEN conjunct1]) (simp add: call_eval)
  have 3: "convertCurrency (shop cart1 [''currency:7000'']) svc (Some (usd 5 0)) ''EUR'' start =
     (Inl (Errorf ''could not connect currency service: %+v'' [ArgE (ErrorNew ''unreachable'')]),
      \<lparr>world = (), trace = [DialFailed ''currency:7000''], next_conn = 0\<rparr>)"
    by (subst t [THEN conjunct2, THEN conjunct2, THEN conjunct1, THEN conjunct1])
       (simp add: call_eval)
  have 4: "quoteShipping (shop cart1 []) svc home cart1 start =
     (Inr (Some (usd 5 0)),
      \<lparr>world = (),
       trace = [Dialed (''shipping:50051'', 0),
                Rpc (''shipping:50051'', 0) (GetQuoteRequest home cart1) True,
                Closed (''shipping:50051'', 0)],
       next_conn = 1\<rparr>)"
    by (subst t [THEN conjunct2, THEN conjunct2, THEN conjunct2, THEN conjunct1, THEN conjunct1])
       (simp add: call_eval)
  have 5: "chargeCard (shop cart1 [''Charge'']) svc (eur 22 500000000) card start =
     (Inl (Errorf ''could not charge the card: %+v'' [ArgE (ErrorNew ''declined'')]),
      \<lparr>world = (),
       trace = [Dialed (''payment:50051'', 0),
                Rpc (''payment:50051'', 0) (ChargeRequest (eur 22 500000000) card) False,
                Closed (''payment:50051'', 0)],
       next_conn = 1\<rparr>)"
    by (subst t [THEN conjunct2, THEN conjunct2, THEN conjunct2, THEN conjunct2,
                 THEN conjunct1, THEN conjunct1])
       (simp add: call_eval)
  have 7: "sendOrderConfirmation (shop cart1 [''email:8080'']) svc ''u1@example.com'' order1 start =
     (Some (Errorf ''failed to connect email service: %+v'' [ArgE (ErrorNew ''unreachable'')]),
      \<lparr>world = (), trace = [DialFailed ''email:8080''], next_conn = 0\<rparr>)"
    by (subst t [THEN conjunct2, THEN conjunct2, THEN conjunct2, THEN conjunct2,
                 THEN conjunct2, THEN conjunct2, THEN conjunct1, THEN conjunct1])
       (simp add: call_eval)
  have 6: "shipOrder (shop cart1 [''ShipOrder'']) svc home cart1 start =
     (Inl (Errorf ''shipment failed: %+v'' [ArgE (ErrorNew ''no carrier'')]),
      \<lparr>world = (),
       trace = [Dialed (''shipping:50051'', 0),
                Rpc (''shipping:50051'', 0) (ShipOrderRequest home cart1) False,
                Closed (''shipping:50051'', 0)],
       next_conn = 1\<rparr>)"
    by (simp add: run_defs)
  have 8: "prepOrderItems (shop cart1 [''P2'']) svc cart1 ''EUR'' start =
     (Inl (Errorf ''failed to get product #%q'' [ArgS ''P2'']),
      \<lparr>world = (),
       trace = [Dialed (''catalog:3550'', 0),
                Rpc (''catalog:3550'', 0) (GetProductRequest ''P1'') True,
                Dialed (''currency:7000'', 1),
                Rpc (''currency:7000'', 1)
                  (CurrencyConversionRequest (Some (usd 10 0)) ''EUR'') True,
                Closed (''currency:7000'', 1),
                Rpc (''catalog:3550'', 0) (GetProductRequest ''P2'') False,
                Closed (''catalog:3550'', 0)],
       next_conn = 2\<rparr>)"
    by (simp add: run_defs)
  have 9: "fst (prepOrderItems (shop cart1 []) svc cart1 ''EUR'' start) = Inr (items order1)"
    "over (''catalog:3550'', 0)
       (trace (snd (prepOrderItems (shop cart1 []) svc cart1 ''EUR'' start))) = lookups cart1"
    by (simp_all add: run_defs lookups_def)
  from 1 2 3 4 5 6 7 8 9 show ?thesis
    by blast
qed

text \<open>
  Claim C7 as stated fails on the code. On a cart of two items \<^verbatim>\<open>prepOrderItems\<close>
  sends two RPCs over the one connection it opens, and its errors for a failed lookup and
  a failed conversion name the product and carry no cause. \<^verbatim>\<open>shipOrder\<close>, when its
  dial to the shipping service fails, reports that it could not connect to the email
  service. \<^verbatim>\<open>sendOrderConfirmation\<close> returns a failed RPC's error unwrapped. The
  messages of the failed RPCs of \<^verbatim>\<open>chargeCard\<close> and \<^verbatim>\<open>shipOrder\<close> do not
  contain the words payment and shipping.
\<close>

theorem prepOrderItems_two_lookups:
  "over (''catalog:3550'', 0)
     (trace (snd (prepOrderItems (shop cart1 []) svc cart1 ''EUR'' start)))
     = [GetProductRequest ''P1'', GetProductRequest ''P2''] \<and>
   length (over (''catalog:3550'', 0)
     (trace (snd (prepOrderItems (shop cart1 []) svc cart1 ''EUR'' start)))) \<noteq> 1 \<and>
   fst (prepOrderItems (shop cart1 [''P2'']) svc cart1 ''EUR'' start)
     = Inl (Errorf ''failed to get product #%q'' [ArgS ''P2'']) \<and>
   fst (prepOrderItems (shop cart1 [''Convert'']) svc cart1 ''EUR'' start)
     = Inl (Errorf ''failed to convert price of %q to %s'' [ArgS ''P1'', ArgS ''EUR'']) \<and>
   fst (shipOrder (shop cart1 [''shipping:50051'']) svc home cart1 start)
     = Inl (Errorf ''failed to connect email service: %+v'' [ArgE (ErrorNew ''unreachable'')]) \<and>
   \<not> mentions ''shipping'' ''failed to connect email service: %+v'' \<and>
   fst (sendOrderConfirmation (shop cart1 [''SendOrderConfirmation'']) svc
          ''u1@example.com'' order1 start)
     = Some (ErrorNew ''bounced'') \<and>
   fst (chargeCard (shop cart1 [''Charge'']) svc (eur 22 500000000) card start)
     = Inl (Errorf ''could not charge the card: %+v'' [ArgE (ErrorNew ''declined'')]) \<and>
   \<not> mentions ''payment'' ''could not charge the card: %+v'' \<and>
   fst (shipOrder (shop cart1 [''ShipOrder'']) svc home cart1 start)
     = Inl (Errorf ''shipment failed: %+v'' [ArgE (ErrorNew ''no carrier'')]) \<and>
   \<not> mentions ''shipping'' ''shipment failed: %+v''"
  by (simp add: run_defs)

section \<open>The empty cart\<close>
















end
